theory Spec2Isabelle
  imports Complex_Main "HOL-Library.Word" "HOL-Library.Log_Nat" "HOL-Library.Finite_Map"
begin

section \<open>JavaScript strings\<close>

text \<open>
  A JavaScript string is a sequence of UTF-16 code units; \<open>length\<close>, \<open>slice\<close>,
  \<open>trim\<close> and a regular expression without the \<open>u\<close> flag all work on code units.
  ASCII literals of the source are written with \<open>asc\<close>; a character outside ASCII is
  given by its code unit.
\<close>

type_synonym jschar = "16 word"
type_synonym jsstring = "jschar list"

definition asc :: "string \<Rightarrow> jsstring" where
  "asc s = map of_char s"

text \<open>
  The white space of ECMAScript (WhiteSpace and LineTerminator): what \<open>trim\<close> strips,
  what \<open>\s\<close> matches and what \<open>parseFloat\<close> skips.
\<close>

definition isWhiteSpace :: "jschar \<Rightarrow> bool" where
  "isWhiteSpace c \<longleftrightarrow>
     c = 0x0009 \<or> c = 0x000A \<or> c = 0x000B \<or> c = 0x000C \<or> c = 0x000D \<or> c = 0x0020 \<or>
     c = 0x00A0 \<or> c = 0x1680 \<or> (0x2000 \<le> c \<and> c \<le> 0x200A) \<or> c = 0x2028 \<or>
     c = 0x2029 \<or> c = 0x202F \<or> c = 0x205F \<or> c = 0x3000 \<or> c = 0xFEFF"

text \<open>\<open>\d\<close> is \<open>[0-9]\<close>, and \<open>\D\<close> its complement.\<close>

definition isDigit :: "jschar \<Rightarrow> bool" where
  "isDigit c \<longleftrightarrow> 0x30 \<le> c \<and> c \<le> 0x39"

text \<open>\<open>String.prototype.trim\<close>.\<close>

definition trim :: "jsstring \<Rightarrow> jsstring" where
  "trim s = rev (dropWhile isWhiteSpace (rev (dropWhile isWhiteSpace s)))"

text \<open>\<open>Array.prototype.join\<close> on an array of strings.\<close>

fun join :: "jsstring \<Rightarrow> jsstring list \<Rightarrow> jsstring" where
  "join sep [] = []"
| "join sep [x] = x"
| "join sep (x # y # ys) = x @ sep @ join sep (y # ys)"

text \<open>
  A value that is a string or \<open>undefined\<close> (\<open>None\<close>): an environment variable, a
  field of the sanitized data. It is truthy when it is a string that is not empty;
  \<open>or_else a b\<close> is \<open>a || b\<close>; \<open>interp\<close> is the value inside a template literal.
\<close>

definition truthy_str :: "jsstring option \<Rightarrow> bool" where
  "truthy_str v = (case v of None \<Rightarrow> False | Some s \<Rightarrow> s \<noteq> [])"

definition or_else :: "jsstring option \<Rightarrow> jsstring option \<Rightarrow> jsstring option" where
  "or_else a b = (if truthy_str a then a else b)"

definition or_default :: "jsstring option \<Rightarrow> jsstring \<Rightarrow> jsstring" where
  "or_default a d = (case a of None \<Rightarrow> d | Some s \<Rightarrow> if s \<noteq> [] then s else d)"

definition interp :: "jsstring option \<Rightarrow> jsstring" where
  "interp v = (case v of None \<Rightarrow> asc ''undefined'' | Some s \<Rightarrow> s)"

section \<open>JavaScript numbers and \<open>parseFloat\<close>\<close>

text \<open>
  A number is NaN, an infinity or a finite value, kept as the rational it denotes
  (\<open>-0\<close> is not told from \<open>0\<close>: no comparison of the program does).
\<close>

datatype jsnum = NaN | NegInf | Fin rat | PosInf

definition isNaN :: "jsnum \<Rightarrow> bool" where
  "isNaN x \<longleftrightarrow> x = NaN"

text \<open>The relational operator \<open>x < y\<close> on numbers; \<open>x > y\<close> is \<open>num_lt y x\<close>.\<close>

fun num_lt :: "jsnum \<Rightarrow> jsnum \<Rightarrow> bool" where
  "num_lt NaN y = False"
| "num_lt x NaN = False"
| "num_lt x NegInf = False"
| "num_lt PosInf y = False"
| "num_lt NegInf y = True"
| "num_lt x PosInf = True"
| "num_lt (Fin a) (Fin b) = (a < b)"

fun num_neg :: "jsnum \<Rightarrow> jsnum" where
  "num_neg NaN = NaN"
| "num_neg NegInf = PosInf"
| "num_neg PosInf = NegInf"
| "num_neg (Fin a) = Fin (- a)"

text \<open>
  The value of a decimal literal is rounded to the nearest IEEE 754 binary64 number,
  ties to the even significand. \<open>binary64 p q\<close> rounds the fraction \<open>p / q\<close>:
  \<open>ilog2_ratio\<close> finds its binary exponent, the unit in the last place is
  \<open>2 ^ (e - 52)\<close> (never below \<open>2 ^ -1074\<close>), and a result of \<open>2 ^ 1024\<close> is infinity.
\<close>

definition ilog2_ratio :: "nat \<Rightarrow> nat \<Rightarrow> int" where
  "ilog2_ratio p q =
     (let k = int (floorlog 2 p) - int (floorlog 2 q)
      in if (if 0 \<le> k then 2 ^ nat k * q \<le> p else q \<le> 2 ^ nat (- k) * p) then k else k - 1)"

definition round_half_even_div :: "nat \<Rightarrow> nat \<Rightarrow> nat" where
  "round_half_even_div a b =
     (let n = a div b; r = a mod b
      in if 2 * r < b then n else if b < 2 * r then n + 1 else if even n then n else n + 1)"

definition binary64 :: "nat \<Rightarrow> nat \<Rightarrow> jsnum" where
  "binary64 p q =
     (if p = 0 then Fin 0
      else let e = max (ilog2_ratio p q) (- 1022);
               s = e - 52;
               n = (if s \<le> 0 then round_half_even_div (p * 2 ^ nat (- s)) q
                    else round_half_even_div p (q * 2 ^ nat s));
               y = of_nat n * 2 powi s
           in if 2 powi 1024 \<le> y then PosInf else Fin y)"

text \<open>
  \<open>parseFloat\<close> on a string: leading white space is skipped, then the longest prefix
  that is a StrDecimalLiteral is read (a sign, then \<open>Infinity\<close> or digits with an
  optional fraction and an optional exponent); without such a prefix the result is NaN.
\<close>

definition digit_val :: "jschar \<Rightarrow> nat" where
  "digit_val c = unat c - 48"

definition digits_val :: "jsstring \<Rightarrow> nat" where
  "digits_val ds = foldl (\<lambda>n c. 10 * n + digit_val c) 0 ds"

text \<open>The exponent part, where it is complete (\<open>e\<close> or \<open>E\<close>, a sign, one digit or more).\<close>

definition exponent_part :: "jsstring \<Rightarrow> int" where
  "exponent_part s =
     (case s of
        [] \<Rightarrow> 0
      | c # r \<Rightarrow>
          if c = of_char CHR ''e'' \<or> c = of_char CHR ''E'' then
            (case r of
               [] \<Rightarrow> 0
             | d # r' \<Rightarrow>
                 if d = of_char CHR ''+'' then
                   (if takeWhile isDigit r' = [] then 0 else int (digits_val (takeWhile isDigit r')))
                 else if d = of_char CHR ''-'' then
                   (if takeWhile isDigit r' = [] then 0 else - int (digits_val (takeWhile isDigit r')))
                 else
                   (if takeWhile isDigit r = [] then 0 else int (digits_val (takeWhile isDigit r))))
          else 0)"

definition decimal_value :: "nat \<Rightarrow> int \<Rightarrow> jsnum" where
  "decimal_value d k = (if 0 \<le> k then binary64 (d * 10 ^ nat k) 1 else binary64 d (10 ^ nat (- k)))"

definition unsigned_literal :: "jsstring \<Rightarrow> jsnum" where
  "unsigned_literal s =
     (if take 8 s = asc ''Infinity'' then PosInf
      else let ip = takeWhile isDigit s;
               r1 = dropWhile isDigit s;
               dot = (case r1 of [] \<Rightarrow> False | c # r \<Rightarrow> c = of_char CHR ''.'');
               fp = (if dot then takeWhile isDigit (drop 1 r1) else []);
               r2 = (if dot then dropWhile isDigit (drop 1 r1) else r1)
           in if ip = [] \<and> fp = [] then NaN
              else decimal_value (digits_val (ip @ fp)) (exponent_part r2 - int (length fp)))"

definition parseFloat_string :: "jsstring \<Rightarrow> jsnum" where
  "parseFloat_string s =
     (case dropWhile isWhiteSpace s of
        [] \<Rightarrow> NaN
      | c # r \<Rightarrow>
          if c = of_char CHR ''-'' then num_neg (unsigned_literal r)
          else if c = of_char CHR ''+'' then unsigned_literal r
          else unsigned_literal (c # r))"

section \<open>JSON values\<close>

text \<open>
  What \<open>request.json()\<close> resolves to, and what a field of the body holds: any JSON
  value. An object is a finite map from its keys (\<open>JSON.parse\<close> keeps the last value
  of a repeated key).
\<close>

datatype jsval =
    JNull
  | JBool bool
  | JNum jsnum
  | JStr jsstring
  | JArr "jsval list"
  | JObj "(jsstring, jsval) fmap"

datatype js_error = TypeError

text \<open>
  An exception ends the statements that follow it: \<open>bindE x f\<close> goes on with \<open>f\<close>
  when \<open>x\<close> returned a value and is the exception of \<open>x\<close> otherwise.
\<close>

fun bindE :: "js_error + 'a \<Rightarrow> ('a \<Rightarrow> js_error + 'b) \<Rightarrow> js_error + 'b" where
  "bindE (Inr a) f = f a"
| "bindE (Inl err) f = Inl err"

text \<open>
  Reading a property \<open>data.name\<close>: of \<open>null\<close> it throws a TypeError; of an object it
  is the value at the key or \<open>undefined\<close> (\<open>None\<close>); a string, number, boolean or array
  has none of the properties the handler reads (\<open>buildingType\<close>, \<open>area\<close>, \<open>location\<close>,
  \<open>email\<close>, \<open>phone\<close>), so the result is \<open>undefined\<close>.
\<close>

fun get_prop :: "jsval \<Rightarrow> jsstring \<Rightarrow> js_error + jsval option" where
  "get_prop JNull name = Inl TypeError"
| "get_prop (JObj m) name = Inr (fmlookup m name)"
| "get_prop v name = Inr None"

text \<open>Truthiness of a value that may be \<open>undefined\<close>.\<close>

fun truthy :: "jsval option \<Rightarrow> bool" where
  "truthy None = False"
| "truthy (Some JNull) = False"
| "truthy (Some (JBool b)) = b"
| "truthy (Some (JNum x)) = (x \<noteq> NaN \<and> x \<noteq> Fin 0)"
| "truthy (Some (JStr s)) = (s \<noteq> [])"
| "truthy (Some (JArr xs)) = True"
| "truthy (Some (JObj m)) = True"

text \<open>
  ToString. For a number, an array and an object it is the argument \<open>ext\<close>: the
  digits of a number, the joined elements of an array, \<open>[object Object]\<close> or a TypeError
  for an object; nothing is assumed about it.
\<close>

fun ToString :: "(jsval \<Rightarrow> js_error + jsstring) \<Rightarrow> jsval option \<Rightarrow> js_error + jsstring" where
  "ToString ext None = Inr (asc ''undefined'')"
| "ToString ext (Some JNull) = Inr (asc ''null'')"
| "ToString ext (Some (JBool b)) = Inr (if b then asc ''true'' else asc ''false'')"
| "ToString ext (Some (JStr s)) = Inr s"
| "ToString ext (Some v) = ext v"

definition parseFloat :: "(jsval \<Rightarrow> js_error + jsstring) \<Rightarrow> jsval option \<Rightarrow> js_error + jsnum" where
  "parseFloat ext v = bindE (ToString ext v) (\<lambda>s. Inr (parseFloat_string s))"

section \<open>The rate limiter\<close>

text \<open>
  \<^verbatim>\<open>const rateLimitMap = new Map<string, { count: number; timestamp: number }>();\<close>
  The table is a map from the client identifier to its record; \<open>Date.now()\<close> is the
  argument \<open>now\<close>, in milliseconds.
\<close>

record rate_record =
  count :: nat
  timestamp :: int

type_synonym rate_table = "jsstring \<rightharpoonup> rate_record"

definition RATE_LIMIT_WINDOW :: int where
  "RATE_LIMIT_WINDOW = 60 * 1000"

definition RATE_LIMIT_MAX :: nat where
  "RATE_LIMIT_MAX = 5"

text \<open>
  \<open>checkRateLimit\<close> returns its verdict and the table as the call leaves it.
  \<open>record.count++\<close> changes the object the map holds, so it is an update of the map.
\<close>

definition checkRateLimit :: "int \<Rightarrow> jsstring \<Rightarrow> rate_table \<Rightarrow> bool \<times> rate_table" where
  "checkRateLimit now ip m =
     (case m ip of
        None \<Rightarrow> (True, m(ip \<mapsto> \<lparr>count = 1, timestamp = now\<rparr>))
      | Some record \<Rightarrow>
          if now - timestamp record > RATE_LIMIT_WINDOW
          then (True, m(ip \<mapsto> \<lparr>count = 1, timestamp = now\<rparr>))
          else if count record \<ge> RATE_LIMIT_MAX then (False, m)
          else (True, m(ip \<mapsto> record\<lparr>count := count record + 1\<rparr>)))"

text \<open>
  The body of the \<open>setInterval\<close> callback: every record whose window has expired at
  \<open>now\<close> is deleted, the others stay as they are.
\<close>

definition sweep :: "int \<Rightarrow> rate_table \<Rightarrow> rate_table" where
  "sweep now m =
     (\<lambda>ip. case m ip of
        None \<Rightarrow> None
      | Some record \<Rightarrow>
          if now - timestamp record > RATE_LIMIT_WINDOW then None else Some record)"

text \<open>
  The table changes through calls of \<open>checkRateLimit\<close> and runs of the sweep only.
  \<open>run\<close> plays a sequence of them from a table and returns the verdict of every
  request, with its client, and the last table.
\<close>

datatype event = Request int jsstring | Sweep int

fun event_time :: "event \<Rightarrow> int" where
  "event_time (Request now ip) = now"
| "event_time (Sweep now) = now"

fun is_request_of :: "jsstring \<Rightarrow> event \<Rightarrow> bool" where
  "is_request_of ip (Request now k) = (k = ip)"
| "is_request_of ip (Sweep now) = False"

fun run :: "rate_table \<Rightarrow> event list \<Rightarrow> (jsstring \<times> bool) list \<times> rate_table" where
  "run m [] = ([], m)"
| "run m (Request now ip # es) =
     (let (ok, m') = checkRateLimit now ip m;
          (rest, m'') = run m' es
      in ((ip, ok) # rest, m''))"
| "run m (Sweep now # es) = run (sweep now m) es"

definition verdicts :: "jsstring \<Rightarrow> (jsstring \<times> bool) list \<Rightarrow> bool list" where
  "verdicts ip trace = map snd (filter (\<lambda>e. fst e = ip) trace)"

definition opens_window :: "int \<Rightarrow> jsstring \<Rightarrow> rate_table \<Rightarrow> bool" where
  "opens_window now ip m =
     (case m ip of None \<Rightarrow> True | Some record \<Rightarrow> now - timestamp record > RATE_LIMIT_WINDOW)"

definition counts_bounded :: "rate_table \<Rightarrow> bool" where
  "counts_bounded m \<longleftrightarrow> (\<forall>ip r. m ip = Some r \<longrightarrow> 1 \<le> count r \<and> count r \<le> RATE_LIMIT_MAX)"

section \<open>Validation helpers\<close>

subsection \<open>Regular expressions\<close>

text \<open>
  The regular expressions of the source have no groups to capture and no look-around, so
  \<open>test\<close> decides membership in a regular language; the matcher works by
  derivatives. \<open>Sym p\<close> is a character class, \<open>Plus r\<close> is \<open>r+\<close>.
\<close>

datatype regex =
    Nothing
  | Empty
  | Sym "jschar \<Rightarrow> bool"
  | Alt regex regex
  | Cat regex regex
  | Rep regex

definition Plus :: "regex \<Rightarrow> regex" where
  "Plus r = Cat r (Rep r)"

fun nullable :: "regex \<Rightarrow> bool" where
  "nullable Nothing = False"
| "nullable Empty = True"
| "nullable (Sym p) = False"
| "nullable (Alt r s) = (nullable r \<or> nullable s)"
| "nullable (Cat r s) = (nullable r \<and> nullable s)"
| "nullable (Rep r) = True"

fun deriv :: "jschar \<Rightarrow> regex \<Rightarrow> regex" where
  "deriv c Nothing = Nothing"
| "deriv c Empty = Nothing"
| "deriv c (Sym p) = (if p c then Empty else Nothing)"
| "deriv c (Alt r s) = Alt (deriv c r) (deriv c s)"
| "deriv c (Cat r s) =
     (if nullable r then Alt (Cat (deriv c r) s) (deriv c s) else Cat (deriv c r) s)"
| "deriv c (Rep r) = Cat (deriv c r) (Rep r)"

text \<open>A pattern anchored by \<open>^\<close> and \<open>$\<close> (no \<open>m\<close> flag) has to match the whole string.\<close>

fun matches :: "regex \<Rightarrow> jsstring \<Rightarrow> bool" where
  "matches r [] = nullable r"
| "matches r (c # cs) = matches (deriv c r) cs"

text \<open>The words a regular expression denotes, to state what the matcher decides.\<close>

inductive_set star :: "jsstring set \<Rightarrow> jsstring set" for A :: "jsstring set" where
  star_nil: "[] \<in> star A"
| star_app: "u \<in> A \<Longrightarrow> v \<in> star A \<Longrightarrow> u @ v \<in> star A"

fun lang :: "regex \<Rightarrow> jsstring set" where
  "lang Nothing = {}"
| "lang Empty = {[]}"
| "lang (Sym p) = {[c] | c. p c}"
| "lang (Alt r s) = lang r \<union> lang s"
| "lang (Cat r s) = {u @ v | u v. u \<in> lang r \<and> v \<in> lang s}"
| "lang (Rep r) = star (lang r)"

subsection \<open>\<open>validateEmail\<close>, \<open>validatePhone\<close>, \<open>sanitize\<close>\<close>

text \<open>
  \<^verbatim>\<open>/^[^\s@]+@[^\s@]+\.[^\s@]+$/.test(email)\<close>
\<close>

definition email_char :: "jschar \<Rightarrow> bool" where
  "email_char c \<longleftrightarrow> \<not> (isWhiteSpace c \<or> c = of_char CHR ''@'')"

definition email_regex :: regex where
  "email_regex =
     Cat (Plus (Sym email_char))
       (Cat (Sym (\<lambda>c. c = of_char CHR ''@''))
         (Cat (Plus (Sym email_char))
           (Cat (Sym (\<lambda>c. c = of_char CHR ''.''))
             (Plus (Sym email_char)))))"

definition validateEmail :: "jsstring \<Rightarrow> bool" where
  "validateEmail email = matches email_regex email"

text \<open>
  A run as the specification words it: not empty, no white space and no \<open>@\<close> in it.
\<close>

definition email_run :: "jsstring \<Rightarrow> bool" where
  "email_run u \<longleftrightarrow> u \<noteq> [] \<and> list_all (\<lambda>c. \<not> isWhiteSpace c \<and> c \<noteq> of_char CHR ''@'') u"

text \<open>
  \<^verbatim>\<open>const digits = phone.replace(/\D/g, ''); return digits.length >= 9;\<close>
  The global replace deletes every code unit that \<open>\D\<close> matches.
\<close>

fun remove_non_digits :: "jsstring \<Rightarrow> jsstring" where
  "remove_non_digits [] = []"
| "remove_non_digits (c # cs) =
     (if \<not> isDigit c then remove_non_digits cs else c # remove_non_digits cs)"

definition validatePhone :: "jsstring \<Rightarrow> bool" where
  "validatePhone phone = (let digits = remove_non_digits phone in length digits \<ge> 9)"

text \<open>
  \<^verbatim>\<open>return str.trim().slice(0, 2000);\<close>
\<close>

definition sanitize :: "jsstring \<Rightarrow> jsstring" where
  "sanitize str = take 2000 (trim str)"

section \<open>Message composition\<close>

text \<open>
  The composers take the sanitized data, a record of strings: \<open>data name\<close> is
  \<open>undefined\<close> (\<open>None\<close>) or a string. \<open>stamp\<close> is what
  \<open>new Date().toLocaleString('pl-PL', {timeZone: 'Europe/Warsaw'})\<close> returns at the call.
\<close>

type_synonym lead_data = "jsstring \<rightharpoonup> jsstring"

definition push_if :: "bool \<Rightarrow> jsstring list \<Rightarrow> jsstring list \<Rightarrow> jsstring list" where
  "push_if b new sections = (if b then sections @ new else sections)"

text \<open>
  \<open>pvInfo\<close> and \<open>storageInfo\<close>, computed where \<open>data.hasPV\<close> (\<open>data.hasStorage\<close>) is
  truthy: the value, with the power or the capacity appended when that field is there.
\<close>

definition pvInfo :: "lead_data \<Rightarrow> jsstring" where
  \<open>pvInfo data =
     (if truthy_str (data (asc ''pvPower''))
      then interp (data (asc ''hasPV''))
        @ asc '' ('' @ interp (data (asc ''pvPower'')) @ asc '' kWp)''
      else interp (data (asc ''hasPV'')))\<close>

definition storageInfo :: "lead_data \<Rightarrow> jsstring" where
  \<open>storageInfo data =
     (if truthy_str (data (asc ''storageCapacity''))
      then interp (data (asc ''hasStorage''))
        @ asc '' ('' @ interp (data (asc ''storageCapacity'')) @ asc '' kWh)''
      else interp (data (asc ''hasStorage'')))\<close>

text \<open>The array \<open>sections\<close> of \<open>formatLeadEmail\<close>, as it stands before the join.\<close>

definition lead_sections :: "jsstring \<Rightarrow> lead_data \<Rightarrow> jsstring list" where
  \<open>lead_sections stamp data =
     (let sections =
            [asc ''## Nowe zg'' @ [0x0142] @ asc ''oszenie - Argentech\<newline>'',
             asc ''### Dane kontaktowe'',
             asc ''- **Email:** '' @ interp (data (asc ''email'')),
             asc ''- **Telefon:** '' @ interp (data (asc ''phone'')),
             [],
             asc ''### Informacje o budynku'',
             asc ''- **Typ budynku:** '' @ interp (data (asc ''buildingType'')),
             asc ''- **Powierzchnia:** '' @ interp (data (asc ''area'')) @ asc '' m'' @ [0x00B2],
             asc ''- **Wojew'' @ [0x00F3] @ asc ''dztwo:** '' @ interp (data (asc ''location''))];
          sections = push_if (truthy_str (data (asc ''currentHeating'')))
            [asc ''- **Aktualne '' @ [0x017A] @ asc ''r'' @ [0x00F3] @ asc ''d'' @ [0x0142] @ asc ''o ciep'' @ [0x0142] @ asc ''a:** '' @ interp (data (asc ''currentHeating''))] sections;
          sections = push_if (truthy_str (data (asc ''installation'')))
            [asc ''- **Instalacja grzewcza:** '' @ interp (data (asc ''installation''))] sections;
          sections = sections @ [[]];
          sections = sections @ [asc ''### Dodatkowe informacje''];
          sections = push_if (truthy_str (data (asc ''hasPV'')))
            [asc ''- **Fotowoltaika:** '' @ pvInfo data] sections;
          sections = push_if (truthy_str (data (asc ''hasStorage'')))
            [asc ''- **Magazyn energii:** '' @ storageInfo data] sections;
          sections = push_if (truthy_str (data (asc ''notes'')))
            [[], asc ''### Uwagi od klienta'', interp (data (asc ''notes''))] sections;
          sections = sections @ [[]];
          sections = sections @ [asc ''---''];
          sections = sections @ [asc ''Zg'' @ [0x0142] @ asc ''oszenie z: '' @ stamp]
      in sections)\<close>

definition formatLeadEmail :: "jsstring \<Rightarrow> lead_data \<Rightarrow> jsstring" where
  "formatLeadEmail stamp data = join (asc ''\<newline>'') (lead_sections stamp data)"

text \<open>\<open>formatLeadHtml\<close>, one definition for each template literal it appends.\<close>

definition html_head :: "lead_data \<Rightarrow> jsstring" where
  \<open>html_head data =
     concat
       [asc ''\<newline>'',
        asc ''    <div style="font-family: -apple-system, BlinkMacSystemFont, 'Segoe UI', Roboto, sans-serif; max-width: 600px; margin: 0 auto;">\<newline>'',
        asc ''      <h2 style="color: #243B53; border-bottom: 2px solid #243B53; padding-bottom: 10px;">Nowe zg'' @ [0x0142] @ asc ''oszenie - Argentech</h2>\<newline>'',
        asc ''      \<newline>'',
        asc ''      <h3 style="color: #2c3039; margin-top: 24px;">Dane kontaktowe</h3>\<newline>'',
        asc ''      <table style="width: 100%; border-collapse: collapse;">\<newline>'',
        asc ''        <tr>\<newline>'',
        asc ''          <td style="padding: 8px 0; color: #5c6370; width: 40%;">Email:</td>\<newline>'',
        asc ''          <td style="padding: 8px 0; color: #2c3039;"><strong>'',
        interp (data (asc ''email'')),
        asc ''</strong></td>\<newline>'',
        asc ''        </tr>\<newline>'',
        asc ''        <tr>\<newline>'',
        asc ''          <td style="padding: 8px 0; color: #5c6370;">Telefon:</td>\<newline>'',
        asc ''          <td style="padding: 8px 0; color: #2c3039;"><strong>'',
        interp (data (asc ''phone'')),
        asc ''</strong></td>\<newline>'',
        asc ''        </tr>\<newline>'',
        asc ''      </table>\<newline>'',
        asc ''      \<newline>'',
        asc ''      <h3 style="color: #2c3039; margin-top: 24px;">Informacje o budynku</h3>\<newline>'',
        asc ''      <table style="width: 100%; border-collapse: collapse;">\<newline>'',
        asc ''        <tr>\<newline>'',
        asc ''          <td style="padding: 8px 0; color: #5c6370; width: 40%;">Typ budynku:</td>\<newline>'',
        asc ''          <td style="padding: 8px 0; color: #2c3039;">'',
        interp (data (asc ''buildingType'')),
        asc ''</td>\<newline>'',
        asc ''        </tr>\<newline>'',
        asc ''        <tr>\<newline>'',
        asc ''          <td style="padding: 8px 0; color: #5c6370;">Powierzchnia:</td>\<newline>'',
        asc ''          <td style="padding: 8px 0; color: #2c3039;">'',
        interp (data (asc ''area'')),
        asc '' m'' @ [0x00B2] @ asc ''</td>\<newline>'',
        asc ''        </tr>\<newline>'',
        asc ''        <tr>\<newline>'',
        asc ''          <td style="padding: 8px 0; color: #5c6370;">Wojew'' @ [0x00F3] @ asc ''dztwo:</td>\<newline>'',
        asc ''          <td style="padding: 8px 0; color: #2c3039;">'',
        interp (data (asc ''location'')),
        asc ''</td>\<newline>'',
        asc ''        </tr>\<newline>'',
        asc ''  '']\<close>

definition html_currentHeating :: "lead_data \<Rightarrow> jsstring" where
  \<open>html_currentHeating data =
     concat
       [asc ''\<newline>'',
        asc ''        <tr>\<newline>'',
        asc ''          <td style="padding: 8px 0; color: #5c6370;">Aktualne '' @ [0x017A] @ asc ''r'' @ [0x00F3] @ asc ''d'' @ [0x0142] @ asc ''o ciep'' @ [0x0142] @ asc ''a:</td>\<newline>'',
        asc ''          <td style="padding: 8px 0; color: #2c3039;">'',
        interp (data (asc ''currentHeating'')),
        asc ''</td>\<newline>'',
        asc ''        </tr>\<newline>'',
        asc ''    '']\<close>

definition html_installation :: "lead_data \<Rightarrow> jsstring" where
  \<open>html_installation data =
     concat
       [asc ''\<newline>'',
        asc ''        <tr>\<newline>'',
        asc ''          <td style="padding: 8px 0; color: #5c6370;">Instalacja grzewcza:</td>\<newline>'',
        asc ''          <td style="padding: 8px 0; color: #2c3039;">'',
        interp (data (asc ''installation'')),
        asc ''</td>\<newline>'',
        asc ''        </tr>\<newline>'',
        asc ''    '']\<close>

definition html_additional_open :: jsstring where
  \<open>html_additional_open =
     concat
       [asc ''<h3 style="color: #2c3039; margin-top: 24px;">Dodatkowe informacje</h3>\<newline>'',
        asc ''      <table style="width: 100%; border-collapse: collapse;">'']\<close>

definition html_pv :: "lead_data \<Rightarrow> jsstring" where
  \<open>html_pv data =
     concat
       [asc ''\<newline>'',
        asc ''        <tr>\<newline>'',
        asc ''          <td style="padding: 8px 0; color: #5c6370; width: 40%;">Fotowoltaika:</td>\<newline>'',
        asc ''          <td style="padding: 8px 0; color: #2c3039;">'',
        pvInfo data,
        asc ''</td>\<newline>'',
        asc ''        </tr>\<newline>'',
        asc ''      '']\<close>

definition html_storage :: "lead_data \<Rightarrow> jsstring" where
  \<open>html_storage data =
     concat
       [asc ''\<newline>'',
        asc ''        <tr>\<newline>'',
        asc ''          <td style="padding: 8px 0; color: #5c6370;">Magazyn energii:</td>\<newline>'',
        asc ''          <td style="padding: 8px 0; color: #2c3039;">'',
        storageInfo data,
        asc ''</td>\<newline>'',
        asc ''        </tr>\<newline>'',
        asc ''      '']\<close>

text \<open>\<open>data.notes.replace(/\n/g, '<br>')\<close>\<close>

definition replace_newlines :: "jsstring \<Rightarrow> jsstring" where
  \<open>replace_newlines s = concat (map (\<lambda>c. if c = 0x000A then asc ''<br>'' else [c]) s)\<close>

definition html_notes :: "lead_data \<Rightarrow> jsstring" where
  \<open>html_notes data =
     concat
       [asc ''\<newline>'',
        asc ''      <h3 style="color: #2c3039; margin-top: 24px;">Uwagi od klienta</h3>\<newline>'',
        asc ''      <p style="color: #2c3039; background-color: #f5f6f7; padding: 12px; border-radius: 4px;">'',
        replace_newlines (interp (data (asc ''notes''))),
        asc ''</p>\<newline>'',
        asc ''    '']\<close>

definition html_foot :: "jsstring \<Rightarrow> jsstring" where
  \<open>html_foot stamp =
     concat
       [asc ''\<newline>'',
        asc ''      <hr style="margin-top: 32px; border: none; border-top: 1px solid #e2e4e8;">\<newline>'',
        asc ''      <p style="color: #7a8291; font-size: 12px;">\<newline>'',
        asc ''        Zg'' @ [0x0142] @ asc ''oszenie z: '',
        stamp,
        asc ''\<newline>'',
        asc ''      </p>\<newline>'',
        asc ''    </div>\<newline>'',
        asc ''  '']\<close>

definition html_additional :: "lead_data \<Rightarrow> jsstring" where
  \<open>html_additional data =
     (if truthy_str (data (asc ''hasPV'')) \<or> truthy_str (data (asc ''hasStorage''))
      then html_additional_open
        @ (if truthy_str (data (asc ''hasPV'')) then html_pv data else [])
        @ (if truthy_str (data (asc ''hasStorage'')) then html_storage data else [])
        @ asc ''</table>''
      else [])\<close>

definition formatLeadHtml :: "jsstring \<Rightarrow> lead_data \<Rightarrow> jsstring" where
  \<open>formatLeadHtml stamp data =
     html_head data
     @ (if truthy_str (data (asc ''currentHeating'')) then html_currentHeating data else [])
     @ (if truthy_str (data (asc ''installation'')) then html_installation data else [])
     @ asc ''</table>''
     @ html_additional data
     @ (if truthy_str (data (asc ''notes'')) then html_notes data else [])
     @ html_foot stamp\<close>

definition getConfirmationEmailHtml :: jsstring where
  \<open>getConfirmationEmailHtml =
     concat
       [asc ''\<newline>'',
        asc ''    <div style="font-family: -apple-system, BlinkMacSystemFont, 'Segoe UI', Roboto, sans-serif; max-width: 600px; margin: 0 auto; padding: 20px;">\<newline>'',
        asc ''      <h2 style="color: #243B53;">Dzi'' @ [0x0119] @ asc ''kujemy za zg'' @ [0x0142] @ asc ''oszenie</h2>\<newline>'',
        asc ''      <p style="color: #2c3039; line-height: 1.6;">\<newline>'',
        asc ''        Otrzymali'' @ [0x015B] @ asc ''my Twoje zg'' @ [0x0142] @ asc ''oszenie dotycz'' @ [0x0105] @ asc ''ce analizy systemu grzewczego.\<newline>'',
        asc ''      </p>\<newline>'',
        asc ''      <p style="color: #2c3039; line-height: 1.6;">\<newline>'',
        asc ''        <strong>Skontaktujemy si'' @ [0x0119] @ asc '' w ci'' @ [0x0105] @ asc ''gu 24'' @ [0x2013] @ asc ''48 godzin</strong>, aby om'' @ [0x00F3] @ asc ''wi'' @ [0x0107] @ asc '' szczeg'' @ [0x00F3] @ [0x0142] @ asc ''y \<newline>'',
        asc ''        i przygotowa'' @ [0x0107] @ asc '' indywidualn'' @ [0x0105] @ asc '' wycen'' @ [0x0119] @ asc ''.\<newline>'',
        asc ''      </p>\<newline>'',
        asc ''      <p style="color: #2c3039; line-height: 1.6;">\<newline>'',
        asc ''        W mi'' @ [0x0119] @ asc ''dzyczasie, je'' @ [0x015B] @ asc ''li masz dodatkowe pytania, mo'' @ [0x017C] @ asc ''esz odpowiedzie'' @ [0x0107] @ asc '' na t'' @ [0x0119] @ asc '' wiadomo'' @ [0x015B] @ [0x0107] @ asc ''.\<newline>'',
        asc ''      </p>\<newline>'',
        asc ''      <hr style="margin-top: 32px; border: none; border-top: 1px solid #e2e4e8;">\<newline>'',
        asc ''      <p style="color: #7a8291; font-size: 12px;">\<newline>'',
        asc ''        Argentech '' @ [0x2013] @ asc '' Niezale'' @ [0x017C] @ asc ''ne doradztwo techniczne\<newline>'',
        asc ''      </p>\<newline>'',
        asc ''    </div>\<newline>'',
        asc ''  '']\<close>

section \<open>The request handler\<close>

text \<open>
  The environment (\<open>import.meta.env\<close>): each variable is a string or \<open>undefined\<close>.
\<close>

record env =
  RESEND_API_KEY :: "jsstring option"
  LEAD_TO_EMAIL :: "jsstring option"
  LEAD_FROM_EMAIL :: "jsstring option"
  LEAD_REPLY_TO_EMAIL :: "jsstring option"

text \<open>
  What the handler reads of the request: \<open>clientAddress\<close>, the header
  \<open>x-forwarded-for\<close> (\<open>None\<close> when \<open>headers.get\<close> returns \<open>null\<close>), and the outcome
  of \<open>request.json()\<close> (\<open>None\<close> when it rejects).
\<close>

record request =
  clientAddress :: "jsstring option"
  x_forwarded_for :: "jsstring option"
  json :: "jsval option"

text \<open>
  The clock the handler reads: \<open>Date.now()\<close> in \<open>checkRateLimit\<close>, and the formatted
  date in each of the two composers.
\<close>

record clock =
  date_now :: int
  text_stamp :: jsstring
  html_stamp :: jsstring

text \<open>The argument of \<open>resend.emails.send\<close>.\<close>

record email =
  mail_from :: "jsstring option"
  mail_to :: "jsstring option"
  replyTo :: "jsstring option"
  subject :: jsstring
  text_body :: "jsstring option"
  html_body :: jsstring

text \<open>
  A response is its status and its body, \<open>JSON.stringify({error: message})\<close> or
  \<open>JSON.stringify({success: true})\<close>; every response of the handler has the header
  \<open>Content-Type: application/json\<close>. \<open>Uncaught\<close> is an exception that leaves the handler.
\<close>

datatype body_json = ErrorBody jsstring | SuccessBody

datatype outcome = Response nat body_json | Uncaught js_error

record post_result =
  outcome :: outcome
  table :: rate_table
  calls :: "email list"

text \<open>The validation of \<open>POST\<close>, statement by statement; \<open>True\<close> pushes the message.\<close>

definition buildingType_invalid :: "jsval option \<Rightarrow> bool" where
  \<open>buildingType_invalid v \<longleftrightarrow>
     \<not> truthy v \<or> \<not> (v = Some (JStr (asc ''nowy'')) \<or> v = Some (JStr (asc ''istniej'' @ [0x0105] @ asc ''cy'')))\<close>

definition area_invalid :: "jsnum \<Rightarrow> bool" where
  "area_invalid area \<longleftrightarrow> isNaN area \<or> num_lt area (Fin 20) \<or> num_lt (Fin 2000) area"

text \<open>
  \<open>data.location.trim()\<close> and \<open>phone.replace(...)\<close> are method calls: on a truthy value
  that is not a string they throw a TypeError (the value has no such method).
\<close>

definition location_invalid :: "jsval option \<Rightarrow> js_error + bool" where
  "location_invalid v =
     (if \<not> truthy v then Inr True
      else case v of Some (JStr s) \<Rightarrow> Inr (trim s = []) | _ \<Rightarrow> Inl TypeError)"

definition email_invalid :: "(jsval \<Rightarrow> js_error + jsstring) \<Rightarrow> jsval option \<Rightarrow> js_error + bool" where
  "email_invalid ext v =
     (if \<not> truthy v then Inr True
      else bindE (ToString ext v) (\<lambda>s. Inr (\<not> validateEmail s)))"

definition phone_invalid :: "jsval option \<Rightarrow> js_error + bool" where
  "phone_invalid v =
     (if \<not> truthy v then Inr True
      else case v of Some (JStr s) \<Rightarrow> Inr (\<not> validatePhone s) | _ \<Rightarrow> Inl TypeError)"

definition push_error :: "bool \<Rightarrow> jsstring \<Rightarrow> jsstring list \<Rightarrow> jsstring list" where
  "push_error b message errors = (if b then errors @ [message] else errors)"

definition validate :: "(jsval \<Rightarrow> js_error + jsstring) \<Rightarrow> jsval \<Rightarrow> js_error + jsstring list" where
  \<open>validate ext data =
     bindE (get_prop data (asc ''buildingType'')) (\<lambda>buildingType.
     bindE (get_prop data (asc ''area'')) (\<lambda>area_field.
     bindE (parseFloat ext area_field) (\<lambda>area.
     bindE (get_prop data (asc ''location'')) (\<lambda>location.
     bindE (location_invalid location) (\<lambda>bad_location.
     bindE (get_prop data (asc ''email'')) (\<lambda>email.
     bindE (email_invalid ext email) (\<lambda>bad_email.
     bindE (get_prop data (asc ''phone'')) (\<lambda>phone.
     bindE (phone_invalid phone) (\<lambda>bad_phone.
       Inr (push_error bad_phone (asc ''Nieprawid'' @ [0x0142] @ asc ''owy numer telefonu'')
           (push_error bad_email (asc ''Nieprawid'' @ [0x0142] @ asc ''owy adres email'')
           (push_error bad_location (asc ''Brak wojew'' @ [0x00F3] @ asc ''dztwa'')
           (push_error (area_invalid area) (asc ''Nieprawid'' @ [0x0142] @ asc ''owa powierzchnia'')
           (push_error (buildingType_invalid buildingType) (asc ''Nieprawid'' @ [0x0142] @ asc ''owy typ budynku'')
             []))))))))))))))\<close>

text \<open>
  The loop over \<open>Object.entries(data)\<close>: every field that holds a string is copied,
  sanitized; the others are left out. Assigning to the key \<open>__proto__\<close> of an object
  literal calls the setter of \<open>Object.prototype\<close>, which ignores a string, so that key
  is never set. Only an object passes the validation, so only its entries are modelled.
\<close>

definition sanitizedData :: "jsval \<Rightarrow> lead_data" where
  \<open>sanitizedData data =
     (\<lambda>key. case data of
        JObj m \<Rightarrow>
          (case fmlookup m key of
             Some (JStr v) \<Rightarrow> if key = asc ''__proto__'' then None else Some (sanitize v)
           | _ \<Rightarrow> None)
      | _ \<Rightarrow> None)\<close>

definition notification :: "env \<Rightarrow> clock \<Rightarrow> lead_data \<Rightarrow> email" where
  \<open>notification e clk data =
     \<lparr>mail_from = LEAD_FROM_EMAIL e,
      mail_to = LEAD_TO_EMAIL e,
      replyTo = data (asc ''email''),
      subject = asc ''Nowe zg'' @ [0x0142] @ asc ''oszenie - '' 
       @ interp (data (asc ''buildingType'')) @ asc '' '' 
       @ interp (data (asc ''area'')) @ asc ''m'' @ [0x00B2] @ asc '' ('' 
       @ interp (data (asc ''location'')) @ asc '')'',
      text_body = Some (formatLeadEmail (text_stamp clk) data),
      html_body = formatLeadHtml (html_stamp clk) data\<rparr>\<close>

definition confirmation :: "env \<Rightarrow> lead_data \<Rightarrow> email" where
  \<open>confirmation e data =
     \<lparr>mail_from = LEAD_FROM_EMAIL e,
      mail_to = data (asc ''email''),
      replyTo = or_else (LEAD_REPLY_TO_EMAIL e) (data (asc ''email'')),
      subject = asc ''Argentech - Potwierdzenie zg'' @ [0x0142] @ asc ''oszenia'',
      text_body = None,
      html_body = getConfirmationEmailHtml\<rparr>\<close>

text \<open>
  What a call of \<open>resend.emails.send\<close> comes to. Its promise resolves to a value that
  says the message was accepted (\<open>Delivered\<close>), or resolves to a value whose \<open>error\<close>
  field says the service refused it (\<open>Refused\<close>), or rejects (\<open>Rejected\<close>).
\<close>

datatype send_result = Delivered | Refused | Rejected

text \<open>
  The \<open>try\<close> block. \<open>send k message\<close> is what the \<open>k\<close>-th call of
  \<open>resend.emails.send\<close> comes to. Each call is awaited and the value it resolves to is
  dropped; only a rejected promise makes \<open>await\<close> throw into the \<open>catch\<close>. The calls
  made are returned in their order.
\<close>

definition deliver :: "env \<Rightarrow> (nat \<Rightarrow> email \<Rightarrow> send_result) \<Rightarrow> clock \<Rightarrow> lead_data \<Rightarrow>
    outcome \<times> email list" where
  \<open>deliver e send clk data =
     (if send 0 (notification e clk data) = Rejected
      then (Response 500 (ErrorBody (asc ''Nie uda'' @ [0x0142] @ asc ''o si'' @ [0x0119] @ asc '' wys'' @ [0x0142] @ asc ''a'' @ [0x0107] @ asc '' zg'' @ [0x0142] @ asc ''oszenia. Prosz'' @ [0x0119] @ asc '' spr'' @ [0x00F3] @ asc ''bowa'' @ [0x0107] @ asc '' ponownie.'')), [notification e clk data])
      else if send 1 (confirmation e data) = Rejected
      then (Response 500 (ErrorBody (asc ''Nie uda'' @ [0x0142] @ asc ''o si'' @ [0x0119] @ asc '' wys'' @ [0x0142] @ asc ''a'' @ [0x0107] @ asc '' zg'' @ [0x0142] @ asc ''oszenia. Prosz'' @ [0x0119] @ asc '' spr'' @ [0x00F3] @ asc ''bowa'' @ [0x0107] @ asc '' ponownie.'')), [notification e clk data, confirmation e data])
      else (Response 200 SuccessBody, [notification e clk data, confirmation e data]))\<close>

text \<open>
  \<open>POST\<close>. \<open>ext\<close> is ToString on numbers, arrays and objects, \<open>send\<close> the delivery
  service, \<open>m\<close> the rate-limit table before the request.
\<close>

definition POST :: "(jsval \<Rightarrow> js_error + jsstring) \<Rightarrow> env \<Rightarrow> (nat \<Rightarrow> email \<Rightarrow> send_result) \<Rightarrow>
    clock \<Rightarrow> request \<Rightarrow> rate_table \<Rightarrow> post_result" where
  \<open>POST ext e send clk req m =
     (if \<not> truthy_str (RESEND_API_KEY e) \<or> \<not> truthy_str (LEAD_TO_EMAIL e) \<or>
         \<not> truthy_str (LEAD_FROM_EMAIL e)
      then \<lparr>outcome = Response 500 (ErrorBody (asc ''Konfiguracja serwera nieprawid'' @ [0x0142] @ asc ''owa. Prosz'' @ [0x0119] @ asc '' spr'' @ [0x00F3] @ asc ''bowa'' @ [0x0107] @ asc '' p'' @ [0x00F3] @ [0x017A] @ asc ''niej.'')), table = m, calls = []\<rparr>
      else
        let ip = or_default (or_else (clientAddress req) (x_forwarded_for req)) (asc ''unknown'');
            (admitted, m') = checkRateLimit (date_now clk) ip m
        in if \<not> admitted
           then \<lparr>outcome = Response 429 (ErrorBody (asc ''Zbyt wiele zg'' @ [0x0142] @ asc ''osze'' @ [0x0144] @ asc ''. Prosz'' @ [0x0119] @ asc '' spr'' @ [0x00F3] @ asc ''bowa'' @ [0x0107] @ asc '' za chwil'' @ [0x0119] @ asc ''.'')), table = m', calls = []\<rparr>
           else case json req of
             None \<Rightarrow> \<lparr>outcome = Response 400 (ErrorBody (asc ''Nieprawid'' @ [0x0142] @ asc ''owe dane.'')), table = m', calls = []\<rparr>
           | Some data \<Rightarrow>
               (case validate ext data of
                  Inl err \<Rightarrow> \<lparr>outcome = Uncaught err, table = m', calls = []\<rparr>
                | Inr errors \<Rightarrow>
                    if length errors > 0
                    then \<lparr>outcome = Response 400 (ErrorBody (join (asc ''. '') errors)),
                          table = m', calls = []\<rparr>
                    else let (result, sent) = deliver e send clk (sanitizedData data)
                         in \<lparr>outcome = result, table = m', calls = sent\<rparr>))\<close>

section \<open>Well-typed submissions and the rules as the specification words them\<close>

text \<open>
  The handler declares the body as \<open>Record<string, string>\<close>, and the specification
  takes a submission to be a mapping from field names to strings. \<open>field\<close> reads a
  field of a body that is not \<open>null\<close>; \<open>string_fields\<close> says that each of the five
  validated fields is absent or holds a string.
\<close>

definition string_or_absent :: "jsval option \<Rightarrow> bool" where
  "string_or_absent v = (case v of None \<Rightarrow> True | Some (JStr s) \<Rightarrow> True | _ \<Rightarrow> False)"

definition field :: "jsval \<Rightarrow> jsstring \<Rightarrow> jsval option" where
  "field data name = (case get_prop data name of Inl err \<Rightarrow> None | Inr v \<Rightarrow> v)"

definition string_fields :: "jsval \<Rightarrow> bool" where
  \<open>string_fields data \<longleftrightarrow>
     data \<noteq> JNull \<and>
     string_or_absent (field data (asc ''buildingType'')) \<and>
     string_or_absent (field data (asc ''area'')) \<and>
     string_or_absent (field data (asc ''location'')) \<and>
     string_or_absent (field data (asc ''email'')) \<and>
     string_or_absent (field data (asc ''phone''))\<close>

text \<open>
  The five rules of the specification's table, each on its own field, and the messages
  of the rules that fail, in the order of the table.
\<close>

definition buildingType_rule :: "jsval option \<Rightarrow> bool" where
  \<open>buildingType_rule v \<longleftrightarrow> v = Some (JStr (asc ''nowy'')) \<or> v = Some (JStr (asc ''istniej'' @ [0x0105] @ asc ''cy''))\<close>

definition area_rule :: "jsval option \<Rightarrow> bool" where
  "area_rule v =
     (case v of
        Some (JStr s) \<Rightarrow>
          (case parseFloat_string s of Fin x \<Rightarrow> 20 \<le> x \<and> x \<le> 2000 | _ \<Rightarrow> False)
      | _ \<Rightarrow> False)"

definition location_rule :: "jsval option \<Rightarrow> bool" where
  "location_rule v = (case v of Some (JStr s) \<Rightarrow> trim s \<noteq> [] | _ \<Rightarrow> False)"

definition email_rule :: "jsval option \<Rightarrow> bool" where
  "email_rule v = (case v of Some (JStr s) \<Rightarrow> validateEmail s | _ \<Rightarrow> False)"

definition phone_rule :: "jsval option \<Rightarrow> bool" where
  "phone_rule v = (case v of Some (JStr s) \<Rightarrow> validatePhone s | _ \<Rightarrow> False)"

definition message_unless :: "bool \<Rightarrow> jsstring \<Rightarrow> jsstring list" where
  "message_unless ok message = (if ok then [] else [message])"

definition failure_messages :: "jsval \<Rightarrow> jsstring list" where
  \<open>failure_messages data =
     message_unless (buildingType_rule (field data (asc ''buildingType''))) (asc ''Nieprawid'' @ [0x0142] @ asc ''owy typ budynku'')
     @ message_unless (area_rule (field data (asc ''area''))) (asc ''Nieprawid'' @ [0x0142] @ asc ''owa powierzchnia'')
     @ message_unless (location_rule (field data (asc ''location''))) (asc ''Brak wojew'' @ [0x00F3] @ asc ''dztwa'')
     @ message_unless (email_rule (field data (asc ''email''))) (asc ''Nieprawid'' @ [0x0142] @ asc ''owy adres email'')
     @ message_unless (phone_rule (field data (asc ''phone''))) (asc ''Nieprawid'' @ [0x0142] @ asc ''owy numer telefonu'')\<close>

text \<open>
  The first two states of the handler: the configuration is there, and the client
  identifier the rate limiter is asked about.
\<close>

definition config_present :: "env \<Rightarrow> bool" where
  "config_present e \<longleftrightarrow>
     truthy_str (RESEND_API_KEY e) \<and> truthy_str (LEAD_TO_EMAIL e) \<and> truthy_str (LEAD_FROM_EMAIL e)"

definition client_id :: "request \<Rightarrow> jsstring" where
  "client_id req = or_default (or_else (clientAddress req) (x_forwarded_for req)) (asc ''unknown'')"

section \<open>Example inputs\<close>

text \<open>
  A configured environment, a clock, a request from one address; a submission that
  passes every rule, one that fails every rule, and the body
  \<open>{"buildingType": "dom", "location": 5}\<close>; a delivery service that accepts every
  message and one that refuses every message (its promises resolve, with an error in
  the value); and a ToString that is never reached by a submission of strings.
\<close>

definition example_env :: env where
  "example_env =
     \<lparr>RESEND_API_KEY = Some (asc ''re_test''),
      LEAD_TO_EMAIL = Some (asc ''biuro@argentech.example''),
      LEAD_FROM_EMAIL = Some (asc ''formularz@argentech.example''),
      LEAD_REPLY_TO_EMAIL = None\<rparr>"

definition example_clock :: clock where
  "example_clock =
     \<lparr>date_now = 1000, text_stamp = asc ''3.11.2026, 12:00:00'',
      html_stamp = asc ''3.11.2026, 12:00:00''\<rparr>"

definition example_request :: "jsval option \<Rightarrow> request" where
  "example_request body =
     \<lparr>clientAddress = Some (asc ''10.0.0.1''), x_forwarded_for = None, json = body\<rparr>"

definition valid_lead :: jsval where
  "valid_lead = JObj (fmap_of_list
     [(asc ''buildingType'', JStr (asc ''nowy'')),
      (asc ''area'', JStr (asc ''120'')),
      (asc ''location'', JStr (asc ''mazowieckie'')),
      (asc ''email'', JStr (asc ''jan@example.com'')),
      (asc ''phone'', JStr (asc ''123 456 789''))])"

definition invalid_lead :: jsval where
  "invalid_lead = JObj (fmap_of_list
     [(asc ''buildingType'', JStr (asc ''dom'')),
      (asc ''area'', JStr (asc ''19.99'')),
      (asc ''email'', JStr (asc ''a@b'')),
      (asc ''phone'', JStr (asc ''12345678''))])"

definition mixed_lead :: jsval where
  "mixed_lead = JObj (fmap_of_list
     [(asc ''buildingType'', JStr (asc ''dom'')),
      (asc ''location'', JNum (Fin 5))])"

definition accept_all :: "nat \<Rightarrow> email \<Rightarrow> send_result" where
  "accept_all k message = Delivered"

definition refuse_all :: "nat \<Rightarrow> email \<Rightarrow> send_result" where
  "refuse_all k message = Refused"

definition no_ext :: "jsval \<Rightarrow> js_error + jsstring" where
  "no_ext v = Inl TypeError"

section \<open>Properties of the rate limiter\<close>

lemma checkRateLimit_open:
  assumes "opens_window now ip m"
  shows "checkRateLimit now ip m = (True, m(ip \<mapsto> \<lparr>count = 1, timestamp = now\<rparr>))"
  using assms by (cases "m ip") (simp_all add: checkRateLimit_def opens_window_def)

lemma checkRateLimit_below:
  assumes "m ip = Some r" "now - timestamp r \<le> RATE_LIMIT_WINDOW" "count r < RATE_LIMIT_MAX"
  shows "checkRateLimit now ip m = (True, m(ip \<mapsto> r\<lparr>count := count r + 1\<rparr>))"
  using assms by (simp add: checkRateLimit_def)

lemma checkRateLimit_full:
  assumes "m ip = Some r" "now - timestamp r \<le> RATE_LIMIT_WINDOW" "RATE_LIMIT_MAX \<le> count r"
  shows "checkRateLimit now ip m = (False, m)"
  using assms by (simp add: checkRateLimit_def)

lemma checkRateLimit_other:
  assumes "k \<noteq> ip"
  shows "snd (checkRateLimit now k m) ip = m ip"
  using assms by (simp add: checkRateLimit_def split: option.splits)

lemma sweep_in_window:
  assumes "m ip = Some r" "now - timestamp r \<le> RATE_LIMIT_WINDOW"
  shows "sweep now m ip = Some r"
  using assms by (simp add: sweep_def)

lemma verdicts_Cons:
  "verdicts ip ((k, ok) # trace) =
     (if k = ip then ok # verdicts ip trace else verdicts ip trace)"
  by (simp add: verdicts_def)

text \<open>
  Inside one window: from a record with count \<open>c\<close>, the next \<open>5 - c\<close> requests of the
  client are admitted and all later ones rejected, whatever other clients and the sweep
  do in between.
\<close>

lemma run_in_window:
  assumes "m ip = Some \<lparr>count = c, timestamp = t0\<rparr>"
    and "list_all (\<lambda>e. event_time e - t0 \<le> RATE_LIMIT_WINDOW) es"
  shows "verdicts ip (fst (run m es)) =
           replicate (min (RATE_LIMIT_MAX - c) (length (filter (is_request_of ip) es))) True @
           replicate (length (filter (is_request_of ip) es) - (RATE_LIMIT_MAX - c)) False"
  using assms
proof (induction es arbitrary: m c)
  case Nil
  then show ?case by (simp add: verdicts_def)
next
  case (Cons e es)
  let ?r = "\<lparr>count = c, timestamp = t0\<rparr>"
  from Cons.prems have rest: "list_all (\<lambda>e. event_time e - t0 \<le> RATE_LIMIT_WINDOW) es"
    and here: "event_time e - t0 \<le> RATE_LIMIT_WINDOW" by simp_all
  show ?case
  proof (cases e)
    case (Sweep now)
    with here Cons.prems(1) have "sweep now m ip = Some ?r"
      by (simp add: sweep_in_window)
    from Cons.IH [of "sweep now m" c, OF this rest] Sweep show ?thesis by simp
  next
    case (Request now k)
    show ?thesis
    proof (cases "k = ip")
      case False
      then have "snd (checkRateLimit now k m) ip = Some ?r"
        using Cons.prems(1) by (simp add: checkRateLimit_other)
      from Cons.IH [of "snd (checkRateLimit now k m)" c, OF this rest] Request False
      show ?thesis
        by (simp add: split_beta verdicts_Cons)
    next
      case True
      show ?thesis
      proof (cases "c < RATE_LIMIT_MAX")
        case False
        with here Request True Cons.prems(1)
        have "checkRateLimit now k m = (False, m)"
          by (simp add: checkRateLimit_full)
        with Cons.IH [of m c, OF Cons.prems(1) rest] Request True False show ?thesis
          by (simp add: split_beta verdicts_Cons)
      next
        case below: True
        let ?m = "m(ip \<mapsto> \<lparr>count = c + 1, timestamp = t0\<rparr>)"
        from here Request True Cons.prems(1) below
        have step: "checkRateLimit now k m = (True, ?m)"
          by (simp add: checkRateLimit_below)
        have "?m ip = Some \<lparr>count = c + 1, timestamp = t0\<rparr>" by simp
        from Cons.IH [of ?m "c + 1", OF this rest]
        have "verdicts ip (fst (run ?m es)) =
                replicate (min (RATE_LIMIT_MAX - (c + 1)) (length (filter (is_request_of ip) es))) True @
                replicate (length (filter (is_request_of ip) es) - (RATE_LIMIT_MAX - (c + 1))) False" .
        moreover from below have "RATE_LIMIT_MAX - c = Suc (RATE_LIMIT_MAX - (c + 1))" by simp
        ultimately show ?thesis
          using step Request True by (simp add: split_beta verdicts_Cons)
      qed
    qed
  qed
qed

lemma opens_window_iff:
  "opens_window now ip m \<longleftrightarrow>
     m ip = None \<or> (\<exists>r. m ip = Some r \<and> now - timestamp r > 60000)"
  by (cases "m ip") (simp_all add: opens_window_def RATE_LIMIT_WINDOW_def)

lemma run_from_open:
  assumes fresh: "opens_window now ip m"
    and inwin: "list_all (\<lambda>e. event_time e - now \<le> 60000) es"
  shows "verdicts ip (fst (run m (Request now ip # es))) =
           replicate (min 5 (Suc (length (filter (is_request_of ip) es)))) True @
           replicate (Suc (length (filter (is_request_of ip) es)) - 5) False"
proof -
  let ?m = "m(ip \<mapsto> \<lparr>count = 1, timestamp = now\<rparr>)"
  have "?m ip = Some \<lparr>count = 1, timestamp = now\<rparr>" by simp
  moreover from inwin have "list_all (\<lambda>e. event_time e - now \<le> RATE_LIMIT_WINDOW) es"
    by (simp add: RATE_LIMIT_WINDOW_def)
  ultimately have "verdicts ip (fst (run ?m es)) =
         replicate (min (RATE_LIMIT_MAX - 1) (length (filter (is_request_of ip) es))) True @
         replicate (length (filter (is_request_of ip) es) - (RATE_LIMIT_MAX - 1)) False"
    by (rule run_in_window [of ?m ip 1 now es])
  with checkRateLimit_open [OF fresh] show ?thesis
    by (simp add: split_beta verdicts_Cons RATE_LIMIT_MAX_def)
qed

text \<open>
  C1. The limiter is a fixed window of 60000 ms per client. A request of a client with
  no record, or with a record whose start is more than 60000 ms old, puts the record
  \<open>{count: 1, timestamp: now}\<close> and is admitted; a request inside the window with a
  count below 5 adds one to the count and is admitted; a request inside the window with
  the count at 5 or more is rejected and the table stays as it was. So, of the \<open>n\<close>
  requests a client makes inside the window that its request at \<open>now\<close> opened (requests
  of other clients and sweeps may come in between), exactly the first five are admitted
  and the sixth and later ones are rejected; once the window has elapsed (its start is
  more than 60000 ms old) the next request is admitted again, as the first case says.
\<close>

theorem checkRateLimit_fixed_window:
  "(opens_window now ip m \<longleftrightarrow>
      m ip = None \<or> (\<exists>r. m ip = Some r \<and> now - timestamp r > 60000)) \<and>
   (opens_window now ip m \<longrightarrow>
      checkRateLimit now ip m = (True, m(ip \<mapsto> \<lparr>count = 1, timestamp = now\<rparr>))) \<and>
   (m ip = Some r \<and> now - timestamp r \<le> 60000 \<and> count r < 5 \<longrightarrow>
      checkRateLimit now ip m = (True, m(ip \<mapsto> r\<lparr>count := count r + 1\<rparr>))) \<and>
   (m ip = Some r \<and> now - timestamp r \<le> 60000 \<and> 5 \<le> count r \<longrightarrow>
      checkRateLimit now ip m = (False, m)) \<and>
   (opens_window now ip m \<and> list_all (\<lambda>e. event_time e - now \<le> 60000) es \<longrightarrow>
      verdicts ip (fst (run m (Request now ip # es))) =
        replicate (min 5 (Suc (length (filter (is_request_of ip) es)))) True @
        replicate (Suc (length (filter (is_request_of ip) es)) - 5) False)"
proof (intro conjI impI)
  show "opens_window now ip m \<longleftrightarrow>
      m ip = None \<or> (\<exists>r. m ip = Some r \<and> now - timestamp r > 60000)"
    by (rule opens_window_iff)
  show "checkRateLimit now ip m = (True, m(ip \<mapsto> \<lparr>count = 1, timestamp = now\<rparr>))"
    if "opens_window now ip m"
    using that by (rule checkRateLimit_open)
  show "checkRateLimit now ip m = (True, m(ip \<mapsto> r\<lparr>count := count r + 1\<rparr>))"
    if "m ip = Some r \<and> now - timestamp r \<le> 60000 \<and> count r < 5"
    using that by (simp add: checkRateLimit_below RATE_LIMIT_WINDOW_def RATE_LIMIT_MAX_def)
  show "checkRateLimit now ip m = (False, m)"
    if "m ip = Some r \<and> now - timestamp r \<le> 60000 \<and> 5 \<le> count r"
    using that by (simp add: checkRateLimit_full RATE_LIMIT_WINDOW_def RATE_LIMIT_MAX_def)
  show "verdicts ip (fst (run m (Request now ip # es))) =
        replicate (min 5 (Suc (length (filter (is_request_of ip) es)))) True @
        replicate (Suc (length (filter (is_request_of ip) es)) - 5) False"
    if "opens_window now ip m \<and> list_all (\<lambda>e. event_time e - now \<le> 60000) es"
  proof -
    from that have "opens_window now ip m"
      and "list_all (\<lambda>e. event_time e - now \<le> 60000) es" by blast+
    then show ?thesis by (rule run_from_open)
  qed
qed

text \<open>
  One client sends seven requests inside the window its first request opened, the last
  one exactly 60000 ms after the start; another client and a sweep come in between. The
  first five are admitted, the other two rejected. With the table it leaves, a request
  60001 ms after the start is admitted and starts the count at 1 again.
\<close>

theorem checkRateLimit_fixed_window_witness:
  "opens_window 1000 (asc ''10.0.0.1'') Map.empty \<and>
   list_all (\<lambda>e. event_time e - 1000 \<le> 60000)
     [Request 1001 (asc ''10.0.0.1''), Request 1002 (asc ''10.0.0.2''), Sweep 1003,
      Request 2000 (asc ''10.0.0.1''), Request 3000 (asc ''10.0.0.1''),
      Request 4000 (asc ''10.0.0.1''), Request 5000 (asc ''10.0.0.1''),
      Request 61000 (asc ''10.0.0.1'')] \<and>
   verdicts (asc ''10.0.0.1'')
     (fst (run Map.empty
       [Request 1000 (asc ''10.0.0.1''),
        Request 1001 (asc ''10.0.0.1''), Request 1002 (asc ''10.0.0.2''), Sweep 1003,
        Request 2000 (asc ''10.0.0.1''), Request 3000 (asc ''10.0.0.1''),
        Request 4000 (asc ''10.0.0.1''), Request 5000 (asc ''10.0.0.1''),
        Request 61000 (asc ''10.0.0.1'')]))
     = [True, True, True, True, True, False, False] \<and>
   checkRateLimit 61000 (asc ''10.0.0.1'')
       [asc ''10.0.0.1'' \<mapsto> \<lparr>count = 5, timestamp = 1000\<rparr>]
     = (False, [asc ''10.0.0.1'' \<mapsto> \<lparr>count = 5, timestamp = 1000\<rparr>]) \<and>
   checkRateLimit 61000 (asc ''10.0.0.1'')
       [asc ''10.0.0.1'' \<mapsto> \<lparr>count = 4, timestamp = 1000\<rparr>]
     = (True, [asc ''10.0.0.1'' \<mapsto> \<lparr>count = 5, timestamp = 1000\<rparr>]) \<and>
   checkRateLimit 61001 (asc ''10.0.0.1'')
       [asc ''10.0.0.1'' \<mapsto> \<lparr>count = 5, timestamp = 1000\<rparr>]
     = (True, [asc ''10.0.0.1'' \<mapsto> \<lparr>count = 1, timestamp = 61001\<rparr>])"
proof -
  let ?ip = "asc ''10.0.0.1''"
  let ?es = "[Request 1001 ?ip, Request 1002 (asc ''10.0.0.2''), Sweep 1003,
      Request 2000 ?ip, Request 3000 ?ip, Request 4000 ?ip, Request 5000 ?ip,
      Request 61000 ?ip]"
  let ?full = "[?ip \<mapsto> \<lparr>count = 5, timestamp = 1000\<rparr>]"
  let ?four = "[?ip \<mapsto> \<lparr>count = 4, timestamp = 1000\<rparr>]"
  have diff: "asc ''10.0.0.2'' \<noteq> ?ip" by (simp add: asc_def)
  have fresh: "opens_window 1000 ?ip Map.empty" by (simp add: opens_window_def)
  have inwin: "list_all (\<lambda>e. event_time e - 1000 \<le> 60000) ?es" by simp
  have n: "length (filter (is_request_of ?ip) ?es) = 6" using diff by simp
  have expired: "opens_window 61001 ?ip ?full"
    by (simp add: opens_window_def RATE_LIMIT_WINDOW_def)
  from checkRateLimit_fixed_window [of 1000 ?ip Map.empty _ ?es] fresh inwin
  have "verdicts ?ip (fst (run Map.empty (Request 1000 ?ip # ?es))) =
        replicate (min 5 (Suc (length (filter (is_request_of ?ip) ?es)))) True @
        replicate (Suc (length (filter (is_request_of ?ip) ?es)) - 5) False"
    by blast
  then have a: "verdicts ?ip (fst (run Map.empty (Request 1000 ?ip # ?es))) =
        [True, True, True, True, True, False, False]"
    unfolding n by (simp add: numeral_eq_Suc)
  from checkRateLimit_fixed_window [of 61000 ?ip ?full "\<lparr>count = 5, timestamp = 1000\<rparr>"]
  have b: "checkRateLimit 61000 ?ip ?full = (False, ?full)" by simp
  from checkRateLimit_fixed_window [of 61000 ?ip ?four "\<lparr>count = 4, timestamp = 1000\<rparr>"]
  have c: "checkRateLimit 61000 ?ip ?four = (True, ?full)" by simp
  from checkRateLimit_fixed_window [of 61001 ?ip ?full] expired
  have d: "checkRateLimit 61001 ?ip ?full = (True, [?ip \<mapsto> \<lparr>count = 1, timestamp = 61001\<rparr>])"
    by simp
  from fresh inwin a b c d show ?thesis by blast
qed

subsection \<open>The counts in the table\<close>

lemma counts_bounded_checkRateLimit:
  assumes "counts_bounded m"
  shows "counts_bounded (snd (checkRateLimit now ip m))"
  using assms
  by (cases "m ip")
     (auto simp add: counts_bounded_def checkRateLimit_def RATE_LIMIT_MAX_def)

lemma counts_bounded_sweep:
  assumes "counts_bounded m"
  shows "counts_bounded (sweep now m)"
  using assms
  by (auto simp add: counts_bounded_def sweep_def split: option.splits if_splits)

lemma counts_bounded_run:
  assumes "counts_bounded m"
  shows "counts_bounded (snd (run m es))"
  using assms
proof (induction es arbitrary: m)
  case Nil
  then show ?case by simp
next
  case (Cons e es)
  show ?case
  proof (cases e)
    case (Request now ip)
    from Cons.prems have "counts_bounded (snd (checkRateLimit now ip m))"
      by (rule counts_bounded_checkRateLimit)
    then have "counts_bounded (snd (run (snd (checkRateLimit now ip m)) es))"
      by (rule Cons.IH)
    with Request show ?thesis by (simp add: split_beta)
  next
    case (Sweep now)
    from Cons.prems have "counts_bounded (sweep now m)"
      by (rule counts_bounded_sweep)
    then have "counts_bounded (snd (run (sweep now m) es))"
      by (rule Cons.IH)
    with Sweep show ?thesis by simp
  qed
qed

text \<open>
  C10. The table is empty when the module is loaded (\<open>new Map()\<close>). After any sequence of
  \<open>checkRateLimit\<close> calls and sweeps, at any times, every record in the table has a
  count of at least 1 and at most 5.
\<close>

theorem rate_table_count_bounds:
  assumes "snd (run Map.empty es) ip = Some r"
  shows "1 \<le> count r \<and> count r \<le> 5"
proof -
  have "counts_bounded Map.empty" by (simp add: counts_bounded_def)
  then have "counts_bounded (snd (run Map.empty es))" by (rule counts_bounded_run)
  with assms show ?thesis by (simp add: counts_bounded_def RATE_LIMIT_MAX_def)
qed

text \<open>
  Seven requests of one client in one window, then a sweep that finds the record alive:
  the record is there and its count has stopped at 5.
\<close>

theorem rate_table_count_bounds_witness:
  "snd (run Map.empty
     [Request 0 (asc ''a''), Request 1 (asc ''a''), Request 2 (asc ''a''),
      Request 3 (asc ''a''), Request 4 (asc ''a''), Request 5 (asc ''a''),
      Request 6 (asc ''a''), Sweep 60000]) (asc ''a'')
     = Some \<lparr>count = 5, timestamp = 0\<rparr> \<and>
   1 \<le> count \<lparr>count = 5, timestamp = 0\<rparr> \<and> count \<lparr>count = 5, timestamp = 0\<rparr> \<le> 5"
proof -
  have h: "snd (run Map.empty
     [Request 0 (asc ''a''), Request 1 (asc ''a''), Request 2 (asc ''a''),
      Request 3 (asc ''a''), Request 4 (asc ''a''), Request 5 (asc ''a''),
      Request 6 (asc ''a''), Sweep 60000]) (asc ''a'')
     = Some \<lparr>count = 5, timestamp = 0\<rparr>"
    by (simp add: checkRateLimit_def sweep_def RATE_LIMIT_WINDOW_def RATE_LIMIT_MAX_def)
  from h rate_table_count_bounds [OF h] show ?thesis by blast
qed

section \<open>Properties of the validation helpers\<close>

lemmas string_eval = asc_def isWhiteSpace_def isDigit_def

lemmas num_eval = binary64_def ilog2_ratio_def round_half_even_div_def compute_floorlog
  decimal_value_def unsigned_literal_def parseFloat_string_def exponent_part_def
  digits_val_def digit_val_def isDigit_def isWhiteSpace_def asc_def Let_def

subsection \<open>The matcher decides membership\<close>

lemma nullable_lang: "nullable r \<longleftrightarrow> [] \<in> lang r"
  by (induction r) (auto intro: star_nil)

lemma star_Cons:
  "c # w \<in> star A \<longleftrightarrow> (\<exists>u v. w = u @ v \<and> c # u \<in> A \<and> v \<in> star A)"
proof
  assume "c # w \<in> star A"
  then show "\<exists>u v. w = u @ v \<and> c # u \<in> A \<and> v \<in> star A"
  proof (induction "c # w" rule: star.induct)
    case (star_app u v)
    show ?case
    proof (cases u)
      case Nil
      with star_app show ?thesis by simp
    next
      case (Cons d u')
      with star_app.hyps show ?thesis by auto
    qed
  qed
next
  assume "\<exists>u v. w = u @ v \<and> c # u \<in> A \<and> v \<in> star A"
  then obtain u v where "w = u @ v" "c # u \<in> A" "v \<in> star A" by blast
  then show "c # w \<in> star A"
    using star_app [of "c # u" A v] by simp
qed

lemma deriv_lang: "w \<in> lang (deriv c r) \<longleftrightarrow> c # w \<in> lang r"
proof (induction r arbitrary: w)
  case (Cat r s)
  show ?case
  proof
    assume "w \<in> lang (deriv c (Cat r s))"
    then consider u v where "w = u @ v" "u \<in> lang (deriv c r)" "v \<in> lang s"
      | "nullable r" "w \<in> lang (deriv c s)"
      by (auto split: if_splits)
    then show "c # w \<in> lang (Cat r s)"
    proof cases
      case 1
      then have "c # u \<in> lang r" by (simp add: Cat.IH)
      with 1 have "(c # u) @ v \<in> lang (Cat r s)" by (simp del: append_Cons) blast
      with 1 show ?thesis by simp
    next
      case 2
      then have "[] \<in> lang r" "c # w \<in> lang s" by (simp_all add: nullable_lang Cat.IH)
      then have "[] @ (c # w) \<in> lang (Cat r s)" by (simp del: append_Nil) blast
      then show ?thesis by simp
    qed
  next
    assume "c # w \<in> lang (Cat r s)"
    then obtain u v where uv: "c # w = u @ v" "u \<in> lang r" "v \<in> lang s" by auto
    show "w \<in> lang (deriv c (Cat r s))"
    proof (cases u)
      case Nil
      with uv have "nullable r" "w \<in> lang (deriv c s)" by (simp_all add: nullable_lang Cat.IH)
      then show ?thesis by simp
    next
      case (Cons d u')
      with uv have "w = u' @ v" "c # u' \<in> lang r" by simp_all
      then have "w = u' @ v" "u' \<in> lang (deriv c r)" by (simp_all add: Cat.IH)
      with uv(3) show ?thesis by auto
    qed
  qed
next
  case (Rep r)
  show ?case by (auto simp add: star_Cons Rep.IH)
qed auto

lemma matches_lang: "matches r s \<longleftrightarrow> s \<in> lang r"
  by (induction s arbitrary: r) (simp_all add: nullable_lang deriv_lang)

lemma star_Sym: "w \<in> star (lang (Sym p)) \<longleftrightarrow> list_all p w"
proof
  assume "w \<in> star (lang (Sym p))"
  then show "list_all p w"
  proof induction
    case star_nil
    show ?case by simp
  next
    case (star_app u v)
    from star_app.hyps(1) obtain c where "u = [c]" "p c" by auto
    with star_app.IH show ?case by simp
  qed
next
  assume "list_all p w"
  then show "w \<in> star (lang (Sym p))"
  proof (induction w)
    case Nil
    show ?case by (rule star_nil)
  next
    case (Cons c w)
    then have "[c] \<in> lang (Sym p)" "w \<in> star (lang (Sym p))" by simp_all
    then have "[c] @ w \<in> star (lang (Sym p))" by (rule star_app)
    then show ?case by simp
  qed
qed

lemma lang_Plus_Sym: "w \<in> lang (Plus (Sym p)) \<longleftrightarrow> w \<noteq> [] \<and> list_all p w"
proof
  assume "w \<in> lang (Plus (Sym p))"
  then obtain u v where "w = u @ v" "u \<in> lang (Sym p)" "v \<in> star (lang (Sym p))"
    unfolding Plus_def lang.simps by blast
  moreover from this(2) obtain c where "u = [c]" "p c" by auto
  ultimately show "w \<noteq> [] \<and> list_all p w" using star_Sym [of v p] by simp
next
  assume "w \<noteq> [] \<and> list_all p w"
  then obtain c v where w: "w = [c] @ v" "p c" "list_all p v" by (cases w) auto
  then have "[c] \<in> lang (Sym p)" "v \<in> star (lang (Sym p))"
    using star_Sym [of v p] by simp_all
  then have "[c] @ v \<in> lang (Cat (Sym p) (Rep (Sym p)))"
    unfolding lang.simps by blast
  with w show "w \<in> lang (Plus (Sym p))" by (simp add: Plus_def)
qed

lemma lang_Cat: "w \<in> lang (Cat r s) \<longleftrightarrow> (\<exists>u v. w = u @ v \<and> u \<in> lang r \<and> v \<in> lang s)"
  by auto

lemma lang_Sym_eq: "w \<in> lang (Sym (\<lambda>c. c = d)) \<longleftrightarrow> w = [d]"
  by auto

lemma email_run_lang: "u \<in> lang (Plus (Sym email_char)) \<longleftrightarrow> email_run u"
proof -
  have "email_char = (\<lambda>c. \<not> isWhiteSpace c \<and> c \<noteq> of_char CHR ''@'')"
    by (rule ext) (simp add: email_char_def)
  then show ?thesis by (simp add: lang_Plus_Sym email_run_def)
qed

lemma validateEmail_iff:
  "validateEmail s \<longleftrightarrow>
     (\<exists>u v w. s = u @ asc ''@'' @ v @ asc ''.'' @ w \<and> email_run u \<and> email_run v \<and> email_run w)"
proof -
  have "validateEmail s \<longleftrightarrow> s \<in> lang email_regex"
    by (simp add: validateEmail_def matches_lang)
  also have "\<dots> \<longleftrightarrow> (\<exists>u x1. s = u @ x1 \<and> email_run u \<and>
      (\<exists>a x2. x1 = a @ x2 \<and> a = asc ''@'' \<and>
        (\<exists>v x3. x2 = v @ x3 \<and> email_run v \<and>
          (\<exists>d w. x3 = d @ w \<and> d = asc ''.'' \<and> email_run w))))"
    unfolding email_regex_def
    by (simp only: lang_Cat lang_Sym_eq email_run_lang asc_def list.map)
  also have "\<dots> \<longleftrightarrow> (\<exists>u v w. s = u @ asc ''@'' @ v @ asc ''.'' @ w \<and>
      email_run u \<and> email_run v \<and> email_run w)"
    by blast
  finally show ?thesis .
qed

lemma validateEmail_examples:
  "validateEmail (asc ''a@b.c'')" "\<not> validateEmail (asc ''a@b'')" "\<not> validateEmail (asc ''a b@c.d'')"
  by (simp_all add: validateEmail_def email_regex_def Plus_def email_char_def string_eval)

text \<open>
  C8. \<open>validateEmail\<close> accepts exactly the strings made of a run, \<open>@\<close>, a run,
  \<open>.\<close> and a run, where a run is one or more code units that are neither white space
  nor \<open>@\<close> (a run may hold dots). \<open>a@b.c\<close> is accepted; \<open>a@b\<close> and \<open>a b@c.d\<close>
  are not.
\<close>

theorem validateEmail_shape:
  "(validateEmail s \<longleftrightarrow>
      (\<exists>u v w. s = u @ asc ''@'' @ v @ asc ''.'' @ w \<and>
         email_run u \<and> email_run v \<and> email_run w)) \<and>
   validateEmail (asc ''a@b.c'') \<and>
   \<not> validateEmail (asc ''a@b'') \<and>
   \<not> validateEmail (asc ''a b@c.d'')"
  using validateEmail_iff [of s] validateEmail_examples by blast

text \<open>
  An address with a dot before the \<open>@\<close>: it is accepted, so it splits as the theorem says.
\<close>

theorem validateEmail_shape_witness:
  "validateEmail (asc ''jan.k@example.com'') \<and>
   (\<exists>u v w. asc ''jan.k@example.com'' = u @ asc ''@'' @ v @ asc ''.'' @ w \<and>
      email_run u \<and> email_run v \<and> email_run w)"
proof -
  have "validateEmail (asc ''jan.k@example.com'')"
    by (simp add: validateEmail_def email_regex_def Plus_def email_char_def string_eval)
  with validateEmail_shape [of "asc ''jan.k@example.com''"] show ?thesis by blast
qed

subsection \<open>Telephone numbers\<close>

lemma remove_non_digits_filter: "remove_non_digits s = filter isDigit s"
  by (induction s) simp_all

lemma validatePhone_iff: "validatePhone s \<longleftrightarrow> 9 \<le> length (filter isDigit s)"
  by (simp add: validatePhone_def remove_non_digits_filter)

lemma validatePhone_insert:
  "\<not> isDigit c \<Longrightarrow> validatePhone (u @ [c] @ v) = validatePhone (u @ v)"
  by (simp add: validatePhone_iff)

lemma validatePhone_examples:
  "validatePhone (asc ''123456789'')" "\<not> validatePhone (asc ''12345678'')"
  "validatePhone (asc ''(12) 345-67-89'')" "\<not> validatePhone (asc ''(12) 345-67-8'')"
  by (simp_all add: validatePhone_def string_eval)

text \<open>
  C9. \<open>validatePhone\<close> accepts a string exactly when it holds at least nine of the
  digits \<open>0\<close> to \<open>9\<close>: what the replace leaves is the string's digits in their order,
  and a code unit that is not a digit (a space, a dash, a parenthesis) changes nothing
  wherever it stands. \<open>123456789\<close> is accepted, \<open>12345678\<close> is not.
\<close>

theorem validatePhone_nine_digits:
  "(validatePhone phone \<longleftrightarrow> 9 \<le> length (filter isDigit phone)) \<and>
   remove_non_digits phone = filter isDigit phone \<and>
   (\<not> isDigit c \<longrightarrow> validatePhone (u @ [c] @ v) = validatePhone (u @ v)) \<and>
   validatePhone (asc ''123456789'') \<and>
   \<not> validatePhone (asc ''12345678'') \<and>
   validatePhone (asc ''(12) 345-67-89'') \<and>
   \<not> validatePhone (asc ''(12) 345-67-8'')"
  using validatePhone_iff [of phone] remove_non_digits_filter [of phone]
    validatePhone_insert [of c u v] validatePhone_examples
  by blast

text \<open>
  A space inside nine digits: the number is accepted with it as without it.
\<close>

theorem validatePhone_nine_digits_witness:
  "\<not> isDigit (of_char CHR '' '') \<and>
   validatePhone (asc ''123'' @ [of_char CHR '' ''] @ asc ''456789'') \<and>
   validatePhone (asc ''123'' @ asc ''456789'')"
proof -
  have a: "\<not> isDigit (of_char CHR '' '')" by (simp add: isDigit_def)
  have b: "validatePhone (asc ''123'' @ asc ''456789'')"
    by (simp add: validatePhone_def string_eval)
  from validatePhone_nine_digits [of _ "of_char CHR '' ''" "asc ''123''" "asc ''456789''"] a
  have "validatePhone (asc ''123'' @ [of_char CHR '' ''] @ asc ''456789'') =
        validatePhone (asc ''123'' @ asc ''456789'')" by blast
  with a b show ?thesis by blast
qed

subsection \<open>The area\<close>

lemma area_invalid_iff: "\<not> area_invalid a \<longleftrightarrow> (\<exists>x. a = Fin x \<and> 20 \<le> x \<and> x \<le> 2000)"
  by (cases a) (auto simp add: area_invalid_def isNaN_def)

lemma parseFloat_examples:
  "parseFloat_string (asc ''20'') = Fin 20"
  "parseFloat_string (asc ''2000'') = Fin 2000"
  "parseFloat_string (asc ''19.99'') = Fin (5626684784446013 / 281474976710656)"
  "parseFloat_string (asc ''2000.01'') = Fin (8796137002673111 / 4398046511104)"
  by (simp_all add: num_eval)

lemma parseFloat_JStr: "parseFloat ext (Some (JStr s)) = Inr (parseFloat_string s)"
  by (simp add: parseFloat_def)

text \<open>
  C7. The area rule accepts a number exactly when it is finite (not NaN, not an
  infinity) and lies between 20 and 2000, both bounds included; the number is what
  \<open>parseFloat\<close> reads from the field. The strings \<open>20\<close> and \<open>2000\<close> are accepted,
  \<open>19.99\<close> and \<open>2000.01\<close> are rejected.
\<close>

theorem area_rule_inclusive_bounds:
  "(\<not> area_invalid a \<longleftrightarrow> (\<exists>x. a = Fin x \<and> 20 \<le> x \<and> x \<le> 2000)) \<and>
   parseFloat ext (Some (JStr s)) = Inr (parseFloat_string s) \<and>
   \<not> area_invalid (parseFloat_string (asc ''20'')) \<and>
   \<not> area_invalid (parseFloat_string (asc ''2000'')) \<and>
   area_invalid (parseFloat_string (asc ''19.99'')) \<and>
   area_invalid (parseFloat_string (asc ''2000.01''))"
  by (simp add: area_invalid_iff parseFloat_JStr parseFloat_examples)
    (simp add: area_invalid_def isNaN_def)

text \<open>
  \<open>120.5\<close> is read as the number 241/2, which the rule accepts.
\<close>

theorem area_rule_inclusive_bounds_witness:
  "parseFloat_string (asc ''120.5'') = Fin (241 / 2) \<and>
   \<not> area_invalid (parseFloat_string (asc ''120.5''))"
proof -
  have v: "parseFloat_string (asc ''120.5'') = Fin (241 / 2)"
    by (simp add: num_eval)
  have "\<exists>x. Fin (241 / 2) = Fin x \<and> 20 \<le> x \<and> x \<le> 2000"
    by (rule exI [of _ "241 / 2"]) simp
  with area_rule_inclusive_bounds [of "Fin (241 / 2)"] have "\<not> area_invalid (Fin (241 / 2))"
    by blast
  with v show ?thesis by simp
qed

subsection \<open>\<open>trim\<close> and \<open>sanitize\<close>\<close>

lemma trim_decompose:
  "\<exists>l r. s = l @ trim s @ r \<and> list_all isWhiteSpace l \<and> list_all isWhiteSpace r"
proof -
  let ?a = "takeWhile isWhiteSpace s"
  let ?b = "dropWhile isWhiteSpace s"
  let ?c = "takeWhile isWhiteSpace (rev ?b)"
  have "rev ?b = ?c @ dropWhile isWhiteSpace (rev ?b)" by simp
  then have "?b = rev (dropWhile isWhiteSpace (rev ?b)) @ rev ?c"
    by (metis rev_append rev_rev_ident)
  then have "s = ?a @ trim s @ rev ?c"
    by (metis takeWhile_dropWhile_id trim_def)
  moreover have "list_all isWhiteSpace ?a"
    by (simp add: list_all_iff) (meson set_takeWhileD)
  moreover have "list_all isWhiteSpace (rev ?c)"
    by (simp add: list_all_iff) (meson set_takeWhileD)
  ultimately show ?thesis by blast
qed

lemma trim_ends:
  assumes "trim s \<noteq> []"
  shows "\<not> isWhiteSpace (hd (trim s))" "\<not> isWhiteSpace (last (trim s))"
proof -
  let ?b = "dropWhile isWhiteSpace s"
  let ?d = "dropWhile isWhiteSpace (rev ?b)"
  from assms have d: "?d \<noteq> []" by (simp add: trim_def)
  then have "\<not> isWhiteSpace (hd ?d)" by (rule hd_dropWhile)
  with d show "\<not> isWhiteSpace (last (trim s))" by (simp add: trim_def last_rev)
  from d have b: "?b \<noteq> []" by (cases "?b") simp_all
  then have hb: "\<not> isWhiteSpace (hd ?b)" by (rule hd_dropWhile)
  have "rev ?b = takeWhile isWhiteSpace (rev ?b) @ ?d" by simp
  then have "?b = rev ?d @ rev (takeWhile isWhiteSpace (rev ?b))"
    by (metis rev_append rev_rev_ident)
  with d have "hd ?b = hd (rev ?d)" by (metis hd_append2 rev_is_Nil_conv)
  with hb show "\<not> isWhiteSpace (hd (trim s))" by (simp add: trim_def)
qed

lemma trim_id:
  assumes "s \<noteq> []" "\<not> isWhiteSpace (hd s)" "\<not> isWhiteSpace (last s)"
  shows "trim s = s"
proof -
  from assms have "dropWhile isWhiteSpace s = s" by (cases s) simp_all
  moreover from assms have "dropWhile isWhiteSpace (rev s) = rev s"
    by (cases "rev s") (simp_all add: last_rev [symmetric] hd_rev)
  ultimately show ?thesis by (simp add: trim_def)
qed

lemma sanitize_length: "length (sanitize s) = min 2000 (length (trim s))"
  by (simp add: sanitize_def min.commute)

lemma trim_all_space:
  assumes "list_all isWhiteSpace s"
  shows "trim s = []"
proof -
  from assms have e: "dropWhile isWhiteSpace s = []"
    by (induction s) simp_all
  show ?thesis unfolding trim_def e by simp
qed

lemma trim_sandwich:
  assumes l: "list_all isWhiteSpace l" and r: "list_all isWhiteSpace r"
    and m: "m \<noteq> []" "\<not> isWhiteSpace (hd m)" "\<not> isWhiteSpace (last m)"
  shows "trim (l @ m @ r) = m"
proof -
  from l m have "dropWhile isWhiteSpace (l @ m @ r) = m @ r"
    by (induction l) (simp_all, cases m, simp_all)
  moreover from r m have "dropWhile isWhiteSpace (rev r @ rev m) = rev m"
    by (induction r rule: rev_induct) (simp_all, cases "rev m", simp_all add: last_rev [symmetric] hd_rev)
  ultimately show ?thesis by (simp add: trim_def)
qed

text \<open>
  C6, as the specification states it, fails: a string of length 3000 that starts and
  ends with 600 spaces is sanitized to its 1800 inner code units, not to 2000.
\<close>

theorem sanitize_3000_counterexample:
  "length (replicate 600 (of_char CHR '' '') @ replicate 1800 (of_char CHR ''a'') @
           replicate 600 (of_char CHR '' '') :: jsstring) = 3000 \<and>
   sanitize (replicate 600 (of_char CHR '' '') @ replicate 1800 (of_char CHR ''a'') @
             replicate 600 (of_char CHR '' '')) = replicate 1800 (of_char CHR ''a'') \<and>
   length (sanitize (replicate 600 (of_char CHR '' '') @ replicate 1800 (of_char CHR ''a'') @
             replicate 600 (of_char CHR '' ''))) \<noteq> 2000"
proof -
  have sp: "list_all isWhiteSpace (replicate 600 (of_char CHR '' ''))"
    by (simp add: list_all_iff isWhiteSpace_def)
  have "trim (replicate 600 (of_char CHR '' '') @ replicate 1800 (of_char CHR ''a'') @
             replicate 600 (of_char CHR '' '')) = replicate 1800 (of_char CHR ''a'')"
    by (rule trim_sandwich [OF sp sp]) (simp_all add: isWhiteSpace_def)
  then show ?thesis by (simp add: sanitize_def)
qed

text \<open>
  C6, amended. \<open>sanitize\<close> trims and then truncates: the result is the first 2000
  code units of the trimmed string, and the trimmed string is the argument without the
  white space at its two ends. So the result has the length of the trimmed string or
  2000, whichever is less; a string of length 3000 that neither starts nor ends with
  white space is cut to its first 2000 code units.
\<close>

theorem sanitize_trim_then_truncate:
  "sanitize s = take 2000 (trim s) \<and>
   (\<exists>l r. s = l @ trim s @ r \<and> list_all isWhiteSpace l \<and> list_all isWhiteSpace r) \<and>
   (trim s \<noteq> [] \<longrightarrow> \<not> isWhiteSpace (hd (trim s)) \<and> \<not> isWhiteSpace (last (trim s))) \<and>
   length (sanitize s) = min 2000 (length (trim s)) \<and>
   (length s = 3000 \<and> \<not> isWhiteSpace (hd s) \<and> \<not> isWhiteSpace (last s) \<longrightarrow>
      sanitize s = take 2000 s \<and> length (sanitize s) = 2000)"
proof (intro conjI impI)
  show "sanitize s = take 2000 (trim s)" by (simp add: sanitize_def)
  show "\<exists>l r. s = l @ trim s @ r \<and> list_all isWhiteSpace l \<and> list_all isWhiteSpace r"
    by (rule trim_decompose)
  show "\<not> isWhiteSpace (hd (trim s))" if "trim s \<noteq> []" using that by (rule trim_ends)
  show "\<not> isWhiteSpace (last (trim s))" if "trim s \<noteq> []" using that by (rule trim_ends)
  show "length (sanitize s) = min 2000 (length (trim s))" by (rule sanitize_length)
  assume a: "length s = 3000 \<and> \<not> isWhiteSpace (hd s) \<and> \<not> isWhiteSpace (last s)"
  then have "s \<noteq> []" by auto
  with a have t: "trim s = s" by (simp add: trim_id)
  then show "sanitize s = take 2000 s" by (simp add: sanitize_def)
  from t a show "length (sanitize s) = 2000" by (simp add: sanitize_def)
qed

text \<open>
  3000 times the letter \<open>a\<close>: the result is 2000 times the letter.
\<close>

theorem sanitize_trim_then_truncate_witness:
  "length (replicate 3000 (of_char CHR ''a'') :: jsstring) = 3000 \<and>
   \<not> isWhiteSpace (hd (replicate 3000 (of_char CHR ''a''))) \<and>
   \<not> isWhiteSpace (last (replicate 3000 (of_char CHR ''a''))) \<and>
   sanitize (replicate 3000 (of_char CHR ''a'')) = replicate 2000 (of_char CHR ''a'') \<and>
   length (sanitize (replicate 3000 (of_char CHR ''a''))) = 2000"
proof -
  let ?s = "replicate 3000 (of_char CHR ''a'') :: jsstring"
  have h: "length ?s = 3000 \<and> \<not> isWhiteSpace (hd ?s) \<and> \<not> isWhiteSpace (last ?s)"
    by (simp add: isWhiteSpace_def)
  with sanitize_trim_then_truncate [of ?s]
  have "sanitize ?s = take 2000 ?s \<and> length (sanitize ?s) = 2000" by blast
  with h show ?thesis by simp
qed

section \<open>Properties of the validation pipeline\<close>

subsection \<open>The rules on a submission of strings\<close>

lemma get_prop_field: "data \<noteq> JNull \<Longrightarrow> get_prop data name = Inr (field data name)"
  by (cases data) (simp_all add: field_def)

lemma buildingType_invalid_rule:
  "string_or_absent v \<Longrightarrow> buildingType_invalid v \<longleftrightarrow> \<not> buildingType_rule v"
  by (auto simp add: buildingType_invalid_def buildingType_rule_def asc_def)

lemma parseFloat_undefined: "parseFloat_string (asc ''undefined'') = NaN"
  by (simp add: num_eval)

lemma area_invalid_rule:
  assumes "string_or_absent v"
  shows "\<exists>a. parseFloat ext v = Inr a \<and> (area_invalid a \<longleftrightarrow> \<not> area_rule v)"
proof (cases v)
  case None
  then show ?thesis
    by (simp add: parseFloat_def parseFloat_undefined area_invalid_def isNaN_def area_rule_def)
next
  case (Some j)
  with assms obtain s where "v = Some (JStr s)"
    by (cases j) (simp_all add: string_or_absent_def)
  then show ?thesis
    using area_invalid_iff [of "parseFloat_string s"]
    by (auto simp add: parseFloat_def area_rule_def split: jsnum.splits)
qed

lemma location_invalid_rule:
  "string_or_absent v \<Longrightarrow> location_invalid v = Inr (\<not> location_rule v)"
  by (auto simp add: location_invalid_def location_rule_def string_or_absent_def trim_def
      split: option.splits jsval.splits)

lemma validateEmail_Nil: "\<not> validateEmail []"
  by (simp add: validateEmail_def email_regex_def Plus_def)

lemma email_invalid_rule:
  "string_or_absent v \<Longrightarrow> email_invalid ext v = Inr (\<not> email_rule v)"
  by (auto simp add: email_invalid_def email_rule_def string_or_absent_def validateEmail_Nil
      split: option.splits jsval.splits)

lemma phone_invalid_rule:
  "string_or_absent v \<Longrightarrow> phone_invalid v = Inr (\<not> phone_rule v)"
  by (auto simp add: phone_invalid_def phone_rule_def string_or_absent_def validatePhone_def
      split: option.splits jsval.splits)

lemma push_error_append:
  "push_error b message errors = errors @ message_unless (\<not> b) message"
  by (simp add: push_error_def message_unless_def)

lemma validate_string_fields:
  assumes "string_fields data"
  shows "validate ext data = Inr (failure_messages data)"
proof -
  from assms have nn: "data \<noteq> JNull"
    and bt: "string_or_absent (field data (asc ''buildingType''))"
    and ar: "string_or_absent (field data (asc ''area''))"
    and lo: "string_or_absent (field data (asc ''location''))"
    and em: "string_or_absent (field data (asc ''email''))"
    and ph: "string_or_absent (field data (asc ''phone''))"
    by (simp_all add: string_fields_def)
  from area_invalid_rule [OF ar, of ext] obtain a
    where a: "parseFloat ext (field data (asc ''area'')) = Inr a"
      "area_invalid a \<longleftrightarrow> \<not> area_rule (field data (asc ''area''))" by blast
  show ?thesis
    unfolding validate_def failure_messages_def
    by (simp add: get_prop_field [OF nn] a buildingType_invalid_rule [OF bt]
        location_invalid_rule [OF lo] email_invalid_rule [OF em] phone_invalid_rule [OF ph]
        push_error_append)
qed

lemma failure_messages_Nil:
  \<open>failure_messages data = [] \<longleftrightarrow>
     buildingType_rule (field data (asc ''buildingType'')) \<and>
     area_rule (field data (asc ''area'')) \<and>
     location_rule (field data (asc ''location'')) \<and>
     email_rule (field data (asc ''email'')) \<and>
     phone_rule (field data (asc ''phone''))\<close>
  by (simp add: failure_messages_def message_unless_def)

subsection \<open>The handler after the rate check\<close>

lemma POST_validated:
  assumes "config_present e"
    and "fst (checkRateLimit (date_now clk) (client_id req) m)"
    and "json req = Some data"
    and "validate ext data = Inr errors"
  shows "POST ext e send clk req m =
    (if errors \<noteq> []
     then \<lparr>outcome = Response 400 (ErrorBody (join (asc ''. '') errors)),
           table = snd (checkRateLimit (date_now clk) (client_id req) m), calls = []\<rparr>
     else \<lparr>outcome = fst (deliver e send clk (sanitizedData data)),
           table = snd (checkRateLimit (date_now clk) (client_id req) m),
           calls = snd (deliver e send clk (sanitizedData data))\<rparr>)"
  using assms
  by (simp add: POST_def config_present_def client_id_def split_beta Let_def)

lemma POST_uncaught:
  assumes "config_present e"
    and "fst (checkRateLimit (date_now clk) (client_id req) m)"
    and "json req = Some data"
    and "validate ext data = Inl err"
  shows "POST ext e send clk req m =
    \<lparr>outcome = Uncaught err,
     table = snd (checkRateLimit (date_now clk) (client_id req) m), calls = []\<rparr>"
  using assms
  by (simp add: POST_def config_present_def client_id_def split_beta Let_def)

lemma validate_null: "validate ext JNull = Inl TypeError"
  by (simp add: validate_def)

lemma deliver_cases:
  "deliver e send clk data =
     (if send 0 (notification e clk data) \<noteq> Rejected \<and> send 1 (confirmation e data) \<noteq> Rejected
      then (Response 200 SuccessBody, [notification e clk data, confirmation e data])
      else (Response 500 (ErrorBody (asc ''Nie uda'' @ [0x0142] @ asc ''o si'' @ [0x0119] @ asc '' wys'' @ [0x0142] @ asc ''a'' @ [0x0107] @ asc '' zg'' @ [0x0142] @ asc ''oszenia. Prosz'' @ [0x0119] @ asc '' spr'' @ [0x00F3] @ asc ''bowa'' @ [0x0107] @ asc '' ponownie.'')),
            if send 0 (notification e clk data) \<noteq> Rejected
            then [notification e clk data, confirmation e data]
            else [notification e clk data]))"
  by (simp add: deliver_def)

subsection \<open>The example inputs\<close>

lemma example_config: "config_present example_env"
  by (simp add: config_present_def example_env_def truthy_str_def asc_def)

lemma example_admitted:
  "checkRateLimit (date_now example_clock) (client_id (example_request body)) Map.empty =
     (True, [asc ''10.0.0.1'' \<mapsto> \<lparr>count = 1, timestamp = 1000\<rparr>])"
  by (simp add: checkRateLimit_def example_clock_def client_id_def example_request_def
      or_default_def or_else_def truthy_str_def asc_def)

lemma valid_lead_fields:
  "field valid_lead (asc ''buildingType'') = Some (JStr (asc ''nowy''))"
  "field valid_lead (asc ''area'') = Some (JStr (asc ''120''))"
  "field valid_lead (asc ''location'') = Some (JStr (asc ''mazowieckie''))"
  "field valid_lead (asc ''email'') = Some (JStr (asc ''jan@example.com''))"
  "field valid_lead (asc ''phone'') = Some (JStr (asc ''123 456 789''))"
  by (simp_all add: field_def valid_lead_def fmlookup_of_list asc_def)

lemma invalid_lead_fields:
  "field invalid_lead (asc ''buildingType'') = Some (JStr (asc ''dom''))"
  "field invalid_lead (asc ''area'') = Some (JStr (asc ''19.99''))"
  "field invalid_lead (asc ''location'') = None"
  "field invalid_lead (asc ''email'') = Some (JStr (asc ''a@b''))"
  "field invalid_lead (asc ''phone'') = Some (JStr (asc ''12345678''))"
  by (simp_all add: field_def invalid_lead_def fmlookup_of_list asc_def)

lemma valid_lead_string_fields: "string_fields valid_lead"
  unfolding string_fields_def valid_lead_fields
  by (simp add: string_or_absent_def valid_lead_def)

lemma invalid_lead_string_fields: "string_fields invalid_lead"
  unfolding string_fields_def invalid_lead_fields
  by (simp add: string_or_absent_def invalid_lead_def)

lemma valid_lead_rules:
  "buildingType_rule (Some (JStr (asc ''nowy'')))"
  "area_rule (Some (JStr (asc ''120'')))"
  "location_rule (Some (JStr (asc ''mazowieckie'')))"
  "email_rule (Some (JStr (asc ''jan@example.com'')))"
  "phone_rule (Some (JStr (asc ''123 456 789'')))"
proof -
  show "buildingType_rule (Some (JStr (asc ''nowy'')))"
    by (simp add: buildingType_rule_def)
  have "parseFloat_string (asc ''120'') = Fin 120" by (simp add: num_eval)
  then show "area_rule (Some (JStr (asc ''120'')))" by (simp add: area_rule_def)
  show "location_rule (Some (JStr (asc ''mazowieckie'')))"
    by (simp add: location_rule_def trim_def string_eval)
  show "email_rule (Some (JStr (asc ''jan@example.com'')))"
    by (simp add: email_rule_def validateEmail_def email_regex_def Plus_def email_char_def
        string_eval)
  show "phone_rule (Some (JStr (asc ''123 456 789'')))"
    by (simp add: phone_rule_def validatePhone_def string_eval)
qed

lemma invalid_lead_rules:
  "\<not> buildingType_rule (Some (JStr (asc ''dom'')))"
  "\<not> area_rule (Some (JStr (asc ''19.99'')))"
  "\<not> location_rule None"
  "\<not> email_rule (Some (JStr (asc ''a@b'')))"
  "\<not> phone_rule (Some (JStr (asc ''12345678'')))"
proof -
  show "\<not> buildingType_rule (Some (JStr (asc ''dom'')))"
    by (simp add: buildingType_rule_def asc_def)
  show "\<not> area_rule (Some (JStr (asc ''19.99'')))"
    by (simp add: area_rule_def parseFloat_examples)
  show "\<not> location_rule None"
    by (simp add: location_rule_def)
  show "\<not> email_rule (Some (JStr (asc ''a@b'')))"
    by (simp add: email_rule_def validateEmail_examples)
  show "\<not> phone_rule (Some (JStr (asc ''12345678'')))"
    by (simp add: phone_rule_def validatePhone_examples)
qed

lemma valid_lead_validates: "validate ext valid_lead = Inr []"
  by (simp add: validate_string_fields [OF valid_lead_string_fields] failure_messages_def
      valid_lead_fields valid_lead_rules message_unless_def)

lemma invalid_lead_messages:
  "failure_messages invalid_lead =
     [asc ''Nieprawid'' @ [0x0142] @ asc ''owy typ budynku'',
      asc ''Nieprawid'' @ [0x0142] @ asc ''owa powierzchnia'',
      asc ''Brak wojew'' @ [0x00F3] @ asc ''dztwa'',
      asc ''Nieprawid'' @ [0x0142] @ asc ''owy adres email'',
      asc ''Nieprawid'' @ [0x0142] @ asc ''owy numer telefonu'']"
  by (simp add: failure_messages_def invalid_lead_fields invalid_lead_rules message_unless_def)

lemma valid_lead_request:
  "fst (checkRateLimit (date_now example_clock) (client_id (example_request (Some valid_lead)))
     Map.empty)"
  "json (example_request (Some valid_lead)) = Some valid_lead"
  by (simp add: example_admitted) (simp add: example_request_def)

lemma valid_lead_sanitized:
  "sanitizedData valid_lead (asc ''buildingType'') = Some (asc ''nowy'')"
  "sanitizedData valid_lead (asc ''area'') = Some (asc ''120'')"
  "sanitizedData valid_lead (asc ''location'') = Some (asc ''mazowieckie'')"
  "sanitizedData valid_lead (asc ''email'') = Some (asc ''jan@example.com'')"
  "sanitizedData valid_lead (asc ''phone'') = Some (asc ''123 456 789'')"
  "sanitizedData valid_lead (asc ''currentHeating'') = None"
  "sanitizedData valid_lead (asc ''installation'') = None"
  "sanitizedData valid_lead (asc ''hasPV'') = None"
  "sanitizedData valid_lead (asc ''pvPower'') = None"
  "sanitizedData valid_lead (asc ''hasStorage'') = None"
  "sanitizedData valid_lead (asc ''storageCapacity'') = None"
  "sanitizedData valid_lead (asc ''notes'') = None"
  by (simp_all add: sanitizedData_def valid_lead_def fmlookup_of_list sanitize_def trim_def
      string_eval)

subsection \<open>Validation failures\<close>

text \<open>
  On a submission whose five validated fields are absent or strings, the validation
  returns the messages of exactly the rules that fail, each rule judged on its own
  field and none skipped because an earlier one failed. Whenever the validation
  returns a list of messages that is not empty, the handler answers with status 400
  and the messages joined by \<open>". "\<close>, and it makes no delivery call.
\<close>

lemma string_submission_failures:
  \<open>(string_fields data \<longrightarrow> validate ext data = Inr (failure_messages data)) \<and>
   (failure_messages data \<noteq> [] \<longleftrightarrow>
      \<not> (buildingType_rule (field data (asc ''buildingType'')) \<and>
         area_rule (field data (asc ''area'')) \<and>
         location_rule (field data (asc ''location'')) \<and>
         email_rule (field data (asc ''email'')) \<and>
         phone_rule (field data (asc ''phone'')))) \<and>
   (config_present e \<and> fst (checkRateLimit (date_now clk) (client_id req) m) \<and>
    json req = Some data \<and> validate ext data = Inr errors \<and> errors \<noteq> [] \<longrightarrow>
      POST ext e send clk req m =
        \<lparr>outcome = Response 400 (ErrorBody (join (asc ''. '') errors)),
         table = snd (checkRateLimit (date_now clk) (client_id req) m),
         calls = []\<rparr>)\<close>
proof (intro conjI impI)
  show "validate ext data = Inr (failure_messages data)" if "string_fields data"
    using that by (rule validate_string_fields)
  show \<open>failure_messages data \<noteq> [] \<longleftrightarrow>
      \<not> (buildingType_rule (field data (asc ''buildingType'')) \<and>
         area_rule (field data (asc ''area'')) \<and>
         location_rule (field data (asc ''location'')) \<and>
         email_rule (field data (asc ''email'')) \<and>
         phone_rule (field data (asc ''phone'')))\<close>
    using failure_messages_Nil [of data] by blast
  assume a: "config_present e \<and> fst (checkRateLimit (date_now clk) (client_id req) m) \<and>
    json req = Some data \<and> validate ext data = Inr errors \<and> errors \<noteq> []"
  then have "POST ext e send clk req m =
    (if errors \<noteq> []
     then \<lparr>outcome = Response 400 (ErrorBody (join (asc ''. '') errors)),
           table = snd (checkRateLimit (date_now clk) (client_id req) m), calls = []\<rparr>
     else \<lparr>outcome = fst (deliver e send clk (sanitizedData data)),
           table = snd (checkRateLimit (date_now clk) (client_id req) m),
           calls = snd (deliver e send clk (sanitizedData data))\<rparr>)"
    by (simp add: POST_validated)
  with a show "POST ext e send clk req m =
        \<lparr>outcome = Response 400 (ErrorBody (join (asc ''. '') errors)),
         table = snd (checkRateLimit (date_now clk) (client_id req) m),
         calls = []\<rparr>" by simp
qed

text \<open>
  A submission that fails all five rules: the answer is 400 with the five messages in
  the order of the rules, and nothing is sent.
\<close>

lemma string_submission_failures_example:
  \<open>string_fields invalid_lead \<and>
   validate no_ext invalid_lead = Inr (failure_messages invalid_lead) \<and>
   failure_messages invalid_lead =
     [asc ''Nieprawid'' @ [0x0142] @ asc ''owy typ budynku'',
      asc ''Nieprawid'' @ [0x0142] @ asc ''owa powierzchnia'',
      asc ''Brak wojew'' @ [0x00F3] @ asc ''dztwa'',
      asc ''Nieprawid'' @ [0x0142] @ asc ''owy adres email'',
      asc ''Nieprawid'' @ [0x0142] @ asc ''owy numer telefonu''] \<and>
   POST no_ext example_env accept_all example_clock (example_request (Some invalid_lead)) Map.empty =
     \<lparr>outcome = Response 400 (ErrorBody
        (asc ''Nieprawid'' @ [0x0142] @ asc ''owy typ budynku'' @ asc ''. '' @
         asc ''Nieprawid'' @ [0x0142] @ asc ''owa powierzchnia'' @ asc ''. '' @
         asc ''Brak wojew'' @ [0x00F3] @ asc ''dztwa'' @ asc ''. '' @
         asc ''Nieprawid'' @ [0x0142] @ asc ''owy adres email'' @ asc ''. '' @
         asc ''Nieprawid'' @ [0x0142] @ asc ''owy numer telefonu'')),
      table = [asc ''10.0.0.1'' \<mapsto> \<lparr>count = 1, timestamp = 1000\<rparr>],
      calls = []\<rparr>\<close>
proof -
  let ?req = "example_request (Some invalid_lead)"
  note inst = string_submission_failures [of invalid_lead no_ext example_env example_clock
      ?req Map.empty "failure_messages invalid_lead" accept_all]
  have v: "validate no_ext invalid_lead = Inr (failure_messages invalid_lead)"
    using inst invalid_lead_string_fields by blast
  have ne: "failure_messages invalid_lead \<noteq> []"
    by (simp add: invalid_lead_messages)
  have adm: "fst (checkRateLimit (date_now example_clock) (client_id ?req) Map.empty)"
    by (simp add: example_admitted)
  have j: "json ?req = Some invalid_lead" by (simp add: example_request_def)
  from inst example_config adm j v ne
  have "POST no_ext example_env accept_all example_clock ?req Map.empty =
        \<lparr>outcome = Response 400 (ErrorBody (join (asc ''. '') (failure_messages invalid_lead))),
         table = snd (checkRateLimit (date_now example_clock) (client_id ?req) Map.empty),
         calls = []\<rparr>" by blast
  then show ?thesis
    using invalid_lead_string_fields v
    by (simp add: invalid_lead_messages example_admitted)
qed

lemma mixed_lead_throws: "validate ext mixed_lead = Inl TypeError"
  by (simp add: validate_def mixed_lead_def fmlookup_of_list asc_def parseFloat_def
      parseFloat_undefined [unfolded asc_def] location_invalid_def)

text \<open>
  C3 does not hold of the code. The rules are evaluated one after the other outside
  every \<open>try\<close>, and the location and telephone rules call a string method on the
  field. On the body \<open>{"buildingType": "dom", "location": 5}\<close> the building-type rule
  fails, and then \<open>data.location.trim()\<close> throws a TypeError: the validation returns no
  list of messages, and the handler returns no response with status 400, the exception
  leaves it.
\<close>

theorem validation_failure_uncaught:
  \<open>get_prop mixed_lead (asc ''buildingType'') = Inr (Some (JStr (asc ''dom''))) \<and>
   buildingType_invalid (Some (JStr (asc ''dom''))) \<and>
   get_prop mixed_lead (asc ''location'') = Inr (Some (JNum (Fin 5))) \<and>
   location_invalid (Some (JNum (Fin 5))) = Inl TypeError \<and>
   validate ext mixed_lead = Inl TypeError \<and>
   (config_present e \<and> fst (checkRateLimit (date_now clk) (client_id req) m) \<and>
    json req = Some mixed_lead \<longrightarrow>
      POST ext e send clk req m =
        \<lparr>outcome = Uncaught TypeError,
         table = snd (checkRateLimit (date_now clk) (client_id req) m),
         calls = []\<rparr>)\<close>
proof (intro conjI impI)
  show \<open>get_prop mixed_lead (asc ''buildingType'') = Inr (Some (JStr (asc ''dom'')))\<close>
    by (simp add: mixed_lead_def fmlookup_of_list asc_def)
  show \<open>buildingType_invalid (Some (JStr (asc ''dom'')))\<close>
    by (simp add: buildingType_invalid_def asc_def)
  show \<open>get_prop mixed_lead (asc ''location'') = Inr (Some (JNum (Fin 5)))\<close>
    by (simp add: mixed_lead_def fmlookup_of_list asc_def)
  show "location_invalid (Some (JNum (Fin 5))) = Inl TypeError"
    by (simp add: location_invalid_def)
  show "validate ext mixed_lead = Inl TypeError" by (rule mixed_lead_throws)
  show "POST ext e send clk req m =
        \<lparr>outcome = Uncaught TypeError,
         table = snd (checkRateLimit (date_now clk) (client_id req) m),
         calls = []\<rparr>"
    if "config_present e \<and> fst (checkRateLimit (date_now clk) (client_id req) m) \<and>
      json req = Some mixed_lead"
    using that by (simp add: POST_uncaught mixed_lead_throws)
qed

text \<open>
  That body, in a configured environment, from a client that is admitted.
\<close>

theorem validation_failure_uncaught_witness:
  \<open>config_present example_env \<and>
   json (example_request (Some mixed_lead)) = Some mixed_lead \<and>
   POST no_ext example_env accept_all example_clock (example_request (Some mixed_lead)) Map.empty =
     \<lparr>outcome = Uncaught TypeError,
      table = [asc ''10.0.0.1'' \<mapsto> \<lparr>count = 1, timestamp = 1000\<rparr>],
      calls = []\<rparr>\<close>
proof -
  let ?req = "example_request (Some mixed_lead)"
  have adm: "fst (checkRateLimit (date_now example_clock) (client_id ?req) Map.empty)"
    by (simp add: example_admitted)
  have j: "json ?req = Some mixed_lead" by (simp add: example_request_def)
  from validation_failure_uncaught [of no_ext example_env example_clock ?req Map.empty accept_all]
    example_config adm j
  have "POST no_ext example_env accept_all example_clock ?req Map.empty =
        \<lparr>outcome = Uncaught TypeError,
         table = snd (checkRateLimit (date_now example_clock) (client_id ?req) Map.empty),
         calls = []\<rparr>" by blast
  with example_config j show ?thesis by (simp add: example_admitted)
qed

subsection \<open>Delivery\<close>

text \<open>
  C2 does not hold of the code. For a submission that passes the validation the
  handler sends the business notification (to \<open>LEAD_TO_EMAIL\<close>) and awaits it, and it
  goes on to the confirmation (to the submitter's address) unless the first promise
  rejected; it answers 500 only when a promise rejects. The value a promise resolves
  to is never looked at: when the service refuses the notification by resolving to a
  value that carries the error, the handler still sends the confirmation and answers
  200 with \<open>{success: true}\<close>. (When the first promise rejects, one call is made, not
  two.)
\<close>

theorem delivery_ignores_refused_send:
  \<open>config_present e \<and> fst (checkRateLimit (date_now clk) (client_id req) m) \<and>
   json req = Some data \<and> validate ext data = Inr [] \<longrightarrow>
     calls (POST ext e send clk req m) =
       (if send 0 (notification e clk (sanitizedData data)) = Rejected
        then [notification e clk (sanitizedData data)]
        else [notification e clk (sanitizedData data), confirmation e (sanitizedData data)]) \<and>
     (outcome (POST ext e send clk req m) = Response 200 SuccessBody \<longleftrightarrow>
        send 0 (notification e clk (sanitizedData data)) \<noteq> Rejected \<and>
        send 1 (confirmation e (sanitizedData data)) \<noteq> Rejected) \<and>
     (send 0 (notification e clk (sanitizedData data)) = Rejected \<or>
      send 1 (confirmation e (sanitizedData data)) = Rejected \<longrightarrow>
        outcome (POST ext e send clk req m) =
          Response 500 (ErrorBody (asc ''Nie uda'' @ [0x0142] @ asc ''o si'' @ [0x0119] @ asc '' wys'' @ [0x0142] @ asc ''a'' @ [0x0107] @ asc '' zg'' @ [0x0142] @ asc ''oszenia. Prosz'' @ [0x0119] @ asc '' spr'' @ [0x00F3] @ asc ''bowa'' @ [0x0107] @ asc '' ponownie.''))) \<and>
     (send 0 (notification e clk (sanitizedData data)) = Refused \<and>
      send 1 (confirmation e (sanitizedData data)) \<noteq> Rejected \<longrightarrow>
        outcome (POST ext e send clk req m) = Response 200 SuccessBody) \<and>
     mail_to (notification e clk (sanitizedData data)) = LEAD_TO_EMAIL e \<and>
     mail_to (confirmation e (sanitizedData data)) = sanitizedData data (asc ''email'')\<close>
proof
  assume a: "config_present e \<and> fst (checkRateLimit (date_now clk) (client_id req) m) \<and>
   json req = Some data \<and> validate ext data = Inr []"
  then have "POST ext e send clk req m =
    (if [] \<noteq> ([] :: jsstring list)
     then \<lparr>outcome = Response 400 (ErrorBody (join (asc ''. '') [])),
           table = snd (checkRateLimit (date_now clk) (client_id req) m), calls = []\<rparr>
     else \<lparr>outcome = fst (deliver e send clk (sanitizedData data)),
           table = snd (checkRateLimit (date_now clk) (client_id req) m),
           calls = snd (deliver e send clk (sanitizedData data))\<rparr>)"
    by (simp add: POST_validated)
  then have p: "outcome (POST ext e send clk req m) = fst (deliver e send clk (sanitizedData data))"
    "calls (POST ext e send clk req m) = snd (deliver e send clk (sanitizedData data))"
    by simp_all
  show \<open>calls (POST ext e send clk req m) =
       (if send 0 (notification e clk (sanitizedData data)) = Rejected
        then [notification e clk (sanitizedData data)]
        else [notification e clk (sanitizedData data), confirmation e (sanitizedData data)]) \<and>
     (outcome (POST ext e send clk req m) = Response 200 SuccessBody \<longleftrightarrow>
        send 0 (notification e clk (sanitizedData data)) \<noteq> Rejected \<and>
        send 1 (confirmation e (sanitizedData data)) \<noteq> Rejected) \<and>
     (send 0 (notification e clk (sanitizedData data)) = Rejected \<or>
      send 1 (confirmation e (sanitizedData data)) = Rejected \<longrightarrow>
        outcome (POST ext e send clk req m) =
          Response 500 (ErrorBody (asc ''Nie uda'' @ [0x0142] @ asc ''o si'' @ [0x0119] @ asc '' wys'' @ [0x0142] @ asc ''a'' @ [0x0107] @ asc '' zg'' @ [0x0142] @ asc ''oszenia. Prosz'' @ [0x0119] @ asc '' spr'' @ [0x00F3] @ asc ''bowa'' @ [0x0107] @ asc '' ponownie.''))) \<and>
     (send 0 (notification e clk (sanitizedData data)) = Refused \<and>
      send 1 (confirmation e (sanitizedData data)) \<noteq> Rejected \<longrightarrow>
        outcome (POST ext e send clk req m) = Response 200 SuccessBody) \<and>
     mail_to (notification e clk (sanitizedData data)) = LEAD_TO_EMAIL e \<and>
     mail_to (confirmation e (sanitizedData data)) = sanitizedData data (asc ''email'')\<close>
    unfolding p deliver_cases by (auto simp add: notification_def confirmation_def)
qed

text \<open>
  The valid submission with a service that refuses every message: both calls are made,
  and the answer is 200 with \<open>{success: true}\<close>.
\<close>

theorem delivery_ignores_refused_send_witness:
  \<open>config_present example_env \<and>
   validate no_ext valid_lead = Inr [] \<and>
   refuse_all 0 (notification example_env example_clock (sanitizedData valid_lead)) = Refused \<and>
   refuse_all 1 (confirmation example_env (sanitizedData valid_lead)) = Refused \<and>
   calls (POST no_ext example_env refuse_all example_clock (example_request (Some valid_lead))
     Map.empty) =
     [notification example_env example_clock (sanitizedData valid_lead),
      confirmation example_env (sanitizedData valid_lead)] \<and>
   outcome (POST no_ext example_env refuse_all example_clock (example_request (Some valid_lead))
     Map.empty) = Response 200 SuccessBody\<close>
  using delivery_ignores_refused_send [of example_env example_clock
      "example_request (Some valid_lead)" Map.empty valid_lead no_ext refuse_all]
    example_config valid_lead_request valid_lead_validates [of no_ext]
  by (simp add: refuse_all_def)

subsection \<open>Exceptions that leave the handler\<close>

text \<open>
  C4 does not hold of the code. The validation runs outside every \<open>try\<close>: when it
  throws, the exception leaves \<open>POST\<close> and no response is returned. It throws a
  TypeError on the body \<open>null\<close> (reading \<open>data.buildingType\<close>), on a \<open>location\<close> that
  is a number (\<open>data.location.trim\<close> is not a function) and on a \<open>phone\<close> that is a
  number (\<open>phone.replace\<close> is not a function).
\<close>

theorem POST_null_body_uncaught:
  \<open>(config_present e \<and> fst (checkRateLimit (date_now clk) (client_id req) m) \<and>
    json req = Some data \<and> validate ext data = Inl TypeError \<longrightarrow>
      POST ext e send clk req m =
        \<lparr>outcome = Uncaught TypeError,
         table = snd (checkRateLimit (date_now clk) (client_id req) m),
         calls = []\<rparr>) \<and>
   validate ext JNull = Inl TypeError \<and>
   validate ext (JObj (fmap_of_list [(asc ''location'', JNum (Fin 5))])) = Inl TypeError \<and>
   validate ext (JObj (fmap_of_list [(asc ''phone'', JNum (Fin 123456789))])) = Inl TypeError\<close>
proof (intro conjI impI)
  show "POST ext e send clk req m =
        \<lparr>outcome = Uncaught TypeError,
         table = snd (checkRateLimit (date_now clk) (client_id req) m),
         calls = []\<rparr>"
    if "config_present e \<and> fst (checkRateLimit (date_now clk) (client_id req) m) \<and>
      json req = Some data \<and> validate ext data = Inl TypeError"
    using that by (simp add: POST_uncaught)
  show "validate ext JNull = Inl TypeError" by (rule validate_null)
  show \<open>validate ext (JObj (fmap_of_list [(asc ''location'', JNum (Fin 5))])) = Inl TypeError\<close>
    by (simp add: validate_def fmlookup_of_list asc_def parseFloat_def parseFloat_undefined [unfolded asc_def]
        location_invalid_def)
  show \<open>validate ext (JObj (fmap_of_list [(asc ''phone'', JNum (Fin 123456789))])) = Inl TypeError\<close>
    by (simp add: validate_def fmlookup_of_list asc_def parseFloat_def parseFloat_undefined [unfolded asc_def]
        location_invalid_def email_invalid_def phone_invalid_def)
qed

text \<open>
  The body \<open>null\<close>, in a configured environment, from a client that is admitted.
\<close>

theorem POST_null_body_uncaught_witness:
  \<open>config_present example_env \<and>
   json (example_request (Some JNull)) = Some JNull \<and>
   POST no_ext example_env accept_all example_clock (example_request (Some JNull)) Map.empty =
     \<lparr>outcome = Uncaught TypeError,
      table = [asc ''10.0.0.1'' \<mapsto> \<lparr>count = 1, timestamp = 1000\<rparr>],
      calls = []\<rparr>\<close>
proof -
  let ?req = "example_request (Some JNull)"
  have adm: "fst (checkRateLimit (date_now example_clock) (client_id ?req) Map.empty)"
    by (simp add: example_admitted)
  have j: "json ?req = Some JNull" by (simp add: example_request_def)
  note inst = POST_null_body_uncaught [of example_env example_clock ?req Map.empty JNull no_ext
      accept_all]
  from inst have "validate no_ext JNull = Inl TypeError" by blast
  with inst example_config adm j
  have "POST no_ext example_env accept_all example_clock ?req Map.empty =
        \<lparr>outcome = Uncaught TypeError,
         table = snd (checkRateLimit (date_now example_clock) (client_id ?req) Map.empty),
         calls = []\<rparr>" by blast
  with example_config j show ?thesis by (simp add: example_admitted)
qed

section \<open>Properties of the composers\<close>

lemma lead_sections_required_only:
  assumes "\<not> truthy_str (data (asc ''currentHeating''))"
    and "\<not> truthy_str (data (asc ''installation''))"
    and "\<not> truthy_str (data (asc ''hasPV''))"
    and "\<not> truthy_str (data (asc ''hasStorage''))"
    and "\<not> truthy_str (data (asc ''notes''))"
  shows \<open>lead_sections stamp data =
     [asc ''## Nowe zg'' @ [0x0142] @ asc ''oszenie - Argentech\<newline>'',
      asc ''### Dane kontaktowe'',
      asc ''- **Email:** '' @ interp (data (asc ''email'')),
      asc ''- **Telefon:** '' @ interp (data (asc ''phone'')),
      [],
      asc ''### Informacje o budynku'',
      asc ''- **Typ budynku:** '' @ interp (data (asc ''buildingType'')),
      asc ''- **Powierzchnia:** '' @ interp (data (asc ''area'')) @ asc '' m'' @ [0x00B2],
      asc ''- **Wojew'' @ [0x00F3] @ asc ''dztwo:** '' @ interp (data (asc ''location'')),
      [],
      asc ''### Dodatkowe informacje'',
      [],
      asc ''---'',
      asc ''Zg'' @ [0x0142] @ asc ''oszenie z: '' @ stamp]\<close>
  using assms by (simp add: lead_sections_def push_if_def)

lemma formatLeadHtml_required_only:
  assumes "\<not> truthy_str (data (asc ''currentHeating''))"
    and "\<not> truthy_str (data (asc ''installation''))"
    and "\<not> truthy_str (data (asc ''hasPV''))"
    and "\<not> truthy_str (data (asc ''hasStorage''))"
    and "\<not> truthy_str (data (asc ''notes''))"
  shows \<open>formatLeadHtml stamp data = html_head data @ asc ''</table>'' @ html_foot stamp\<close>
  using assms by (simp add: formatLeadHtml_def html_additional_def)

text \<open>
  C5 does not hold of the code. When every optional field is absent or empty, the
  markup body has no optional section (it is the head, the end of the table and the
  foot), but the plain-text body still has the heading \<open>### Dodatkowe informacje\<close>,
  with no line under it: \<open>formatLeadEmail\<close> pushes that heading without a test, where
  \<open>formatLeadHtml\<close> tests \<open>data.hasPV || data.hasStorage\<close> first.
\<close>

theorem formatLeadEmail_keeps_empty_section:
  \<open>\<not> truthy_str (data (asc ''currentHeating'')) \<and>
   \<not> truthy_str (data (asc ''installation'')) \<and>
   \<not> truthy_str (data (asc ''hasPV'')) \<and>
   \<not> truthy_str (data (asc ''pvPower'')) \<and>
   \<not> truthy_str (data (asc ''hasStorage'')) \<and>
   \<not> truthy_str (data (asc ''storageCapacity'')) \<and>
   \<not> truthy_str (data (asc ''notes'')) \<longrightarrow>
     lead_sections stamp data =
       [asc ''## Nowe zg'' @ [0x0142] @ asc ''oszenie - Argentech\<newline>'',
        asc ''### Dane kontaktowe'',
        asc ''- **Email:** '' @ interp (data (asc ''email'')),
        asc ''- **Telefon:** '' @ interp (data (asc ''phone'')),
        [],
        asc ''### Informacje o budynku'',
        asc ''- **Typ budynku:** '' @ interp (data (asc ''buildingType'')),
        asc ''- **Powierzchnia:** '' @ interp (data (asc ''area'')) @ asc '' m'' @ [0x00B2],
        asc ''- **Wojew'' @ [0x00F3] @ asc ''dztwo:** '' @ interp (data (asc ''location'')),
        [],
        asc ''### Dodatkowe informacje'',
        [],
        asc ''---'',
        asc ''Zg'' @ [0x0142] @ asc ''oszenie z: '' @ stamp] \<and>
     formatLeadHtml stamp data = html_head data @ asc ''</table>'' @ html_foot stamp\<close>
  by (simp add: lead_sections_required_only formatLeadHtml_required_only)

text \<open>
  The sanitized data of the valid submission, which has the five required fields only.
\<close>

theorem formatLeadEmail_keeps_empty_section_witness:
  \<open>\<not> truthy_str (sanitizedData valid_lead (asc ''currentHeating'')) \<and>
   \<not> truthy_str (sanitizedData valid_lead (asc ''installation'')) \<and>
   \<not> truthy_str (sanitizedData valid_lead (asc ''hasPV'')) \<and>
   \<not> truthy_str (sanitizedData valid_lead (asc ''pvPower'')) \<and>
   \<not> truthy_str (sanitizedData valid_lead (asc ''hasStorage'')) \<and>
   \<not> truthy_str (sanitizedData valid_lead (asc ''storageCapacity'')) \<and>
   \<not> truthy_str (sanitizedData valid_lead (asc ''notes'')) \<and>
   lead_sections (asc ''3.11.2026, 12:00:00'') (sanitizedData valid_lead) =
     [asc ''## Nowe zg'' @ [0x0142] @ asc ''oszenie - Argentech\<newline>'',
      asc ''### Dane kontaktowe'',
      asc ''- **Email:** jan@example.com'',
      asc ''- **Telefon:** 123 456 789'',
      [],
      asc ''### Informacje o budynku'',
      asc ''- **Typ budynku:** nowy'',
      asc ''- **Powierzchnia:** 120 m'' @ [0x00B2],
      asc ''- **Wojew'' @ [0x00F3] @ asc ''dztwo:** mazowieckie'',
      [],
      asc ''### Dodatkowe informacje'',
      [],
      asc ''---'',
      asc ''Zg'' @ [0x0142] @ asc ''oszenie z: 3.11.2026, 12:00:00''] \<and>
   formatLeadHtml (asc ''3.11.2026, 12:00:00'') (sanitizedData valid_lead) =
     html_head (sanitizedData valid_lead) @ asc ''</table>'' @
     html_foot (asc ''3.11.2026, 12:00:00'')\<close>
proof -
  have none: "\<not> truthy_str (sanitizedData valid_lead (asc ''currentHeating''))"
    "\<not> truthy_str (sanitizedData valid_lead (asc ''installation''))"
    "\<not> truthy_str (sanitizedData valid_lead (asc ''hasPV''))"
    "\<not> truthy_str (sanitizedData valid_lead (asc ''pvPower''))"
    "\<not> truthy_str (sanitizedData valid_lead (asc ''hasStorage''))"
    "\<not> truthy_str (sanitizedData valid_lead (asc ''storageCapacity''))"
    "\<not> truthy_str (sanitizedData valid_lead (asc ''notes''))"
    by (simp_all add: valid_lead_sanitized truthy_str_def)
  with formatLeadEmail_keeps_empty_section
    [of "sanitizedData valid_lead" "asc ''3.11.2026, 12:00:00''"]
  have "lead_sections (asc ''3.11.2026, 12:00:00'') (sanitizedData valid_lead) =
       [asc ''## Nowe zg'' @ [0x0142] @ asc ''oszenie - Argentech\<newline>'',
        asc ''### Dane kontaktowe'',
        asc ''- **Email:** '' @ interp (sanitizedData valid_lead (asc ''email'')),
        asc ''- **Telefon:** '' @ interp (sanitizedData valid_lead (asc ''phone'')),
        [],
        asc ''### Informacje o budynku'',
        asc ''- **Typ budynku:** '' @ interp (sanitizedData valid_lead (asc ''buildingType'')),
        asc ''- **Powierzchnia:** '' @ interp (sanitizedData valid_lead (asc ''area'')) @ asc '' m'' @ [0x00B2],
        asc ''- **Wojew'' @ [0x00F3] @ asc ''dztwo:** '' @ interp (sanitizedData valid_lead (asc ''location'')),
        [],
        asc ''### Dodatkowe informacje'',
        [],
        asc ''---'',
        asc ''Zg'' @ [0x0142] @ asc ''oszenie z: '' @ asc ''3.11.2026, 12:00:00'']"
    and html: "formatLeadHtml (asc ''3.11.2026, 12:00:00'') (sanitizedData valid_lead) =
      html_head (sanitizedData valid_lead) @ asc ''</table>'' @
      html_foot (asc ''3.11.2026, 12:00:00'')"
    by blast+
  then have "lead_sections (asc ''3.11.2026, 12:00:00'') (sanitizedData valid_lead) =
     [asc ''## Nowe zg'' @ [0x0142] @ asc ''oszenie - Argentech\<newline>'',
      asc ''### Dane kontaktowe'',
      asc ''- **Email:** jan@example.com'',
      asc ''- **Telefon:** 123 456 789'',
      [],
      asc ''### Informacje o budynku'',
      asc ''- **Typ budynku:** nowy'',
      asc ''- **Powierzchnia:** 120 m'' @ [0x00B2],
      asc ''- **Wojew'' @ [0x00F3] @ asc ''dztwo:** mazowieckie'',
      [],
      asc ''### Dodatkowe informacje'',
      [],
      asc ''---'',
      asc ''Zg'' @ [0x0142] @ asc ''oszenie z: 3.11.2026, 12:00:00'']"
    unfolding valid_lead_sanitized interp_def option.case by (simp add: asc_def)
  with none html show ?thesis by blast
qed

end
